theory Spec2Isabelle
  imports Main
begin

section \<open>Values, errors and the storage boundary\<close>

text \<open>
  Python values as they travel between the program and the catalog. A float is identified
  by its \<open>repr\<close> text, a \<open>bytes\<close> object and a \<open>datetime\<close> by their canonical text
  (ISO-8601 for a timestamp): none of the operations below computes with their contents.
\<close>

datatype pyval =
    PNone
  | PBool bool
  | PInt int
  | PFloat string
  | PStr string
  | PBytes string
  | PDatetime string

datatype pytype = TStr | TInt | TFloat | TBytes | TDatetime | TBool

text \<open>\<open>isinstance(value, type)\<close>; in Python \<open>bool\<close> is a subclass of \<open>int\<close>.\<close>

fun isinstance :: "pyval \<Rightarrow> pytype \<Rightarrow> bool" where
  "isinstance (PStr s) TStr = True"
| "isinstance (PInt n) TInt = True"
| "isinstance (PBool b) TInt = True"
| "isinstance (PBool b) TBool = True"
| "isinstance (PFloat r) TFloat = True"
| "isinstance (PBytes b) TBytes = True"
| "isinstance (PDatetime d) TDatetime = True"
| "isinstance v t = False"

text \<open>
  The exceptions of the program. The messages of the \<open>ValueError\<close>s the source raises are
  kept apart by a tag, since the design distinguishes them by what they report.
\<close>

datatype verr =
    Bare
  | IllegalValue string string
  | IdIsNone
  | NoIdColumn
  | DestinationNotDir

datatype error =
    ValueError verr
  | TypeError
  | AttributeError
  | KeyError
  | OperationalError
  | FileNotFoundError
  | NotADirectoryError
  | IsADirectoryError
  | OSError
  | UnboundLocalError

section \<open>db.py: column descriptors\<close>

datatype fkind =
    TextField
  | CharField nat
  | IntegerField
  | FloatField
  | BinaryField
  | DatetimeField
  | BooleanField
  | ForeignKeyField string

text \<open>
  The class attribute \<open>type\<close> of each \<open>Field\<close> subclass. \<open>Field\<close> only annotates the
  attribute, and \<open>ForeignKeyField\<close>, unlike its siblings, assigns none: on a foreign key
  the attribute does not exist.
\<close>

fun ftype :: "fkind \<Rightarrow> pytype option" where
  "ftype TextField = Some TStr"
| "ftype (CharField n) = Some TStr"
| "ftype IntegerField = Some TInt"
| "ftype FloatField = Some TFloat"
| "ftype BinaryField = Some TBytes"
| "ftype DatetimeField = Some TDatetime"
| "ftype BooleanField = Some TBool"
| "ftype (ForeignKeyField m) = None"

record field =
  kind :: fkind
  nullable :: bool
  fvalue :: pyval
  fdefault :: pyval

text \<open>
  \<open>Field.check\<close>:
  \<^verbatim>\<open>
    if not isinstance(self.value, self.type):
        if self.value is not None or not self.nullable:
            raise ValueError
  \<close>
  Evaluating \<open>self.type\<close> comes first and raises \<open>AttributeError\<close> when the class has no
  such attribute, whatever the value is.
\<close>

definition check :: "field \<Rightarrow> error + unit" where
  "check f =
     (case ftype (kind f) of
        None \<Rightarrow> Inl AttributeError
      | Some t \<Rightarrow>
          (if \<not> isinstance (fvalue f) t then
             (if fvalue f \<noteq> PNone \<or> \<not> nullable f then Inl (ValueError Bare) else Inr ())
           else Inr ()))"

text \<open>
  \<open>Model._check\<close>: the fields in declaration order; the first \<open>ValueError\<close> of a field is
  raised again as a \<open>ValueError\<close> naming the class and the field. Only \<open>ValueError\<close> is
  caught: any other exception of a field's check leaves \<open>_check\<close> as it is.
\<close>

fun check_fields :: "string \<Rightarrow> (string \<times> field) list \<Rightarrow> error + unit" where
  "check_fields cn [] = Inr ()"
| "check_fields cn ((field_name, f) # rest) =
     (case check f of
        Inl (ValueError m) \<Rightarrow> Inl (ValueError (IllegalValue cn field_name))
      | Inl e \<Rightarrow> Inl e
      | Inr u \<Rightarrow> check_fields cn rest)"

section \<open>The catalog and the statements sent to it\<close>

text \<open>
  A row maps column names to stored values; a table is the list of its rows. The catalog is
  assumed to have the tables and columns that the schemas name (a statement never fails for
  a missing table or column), and its columns keep the storage class of what is written
  (integer columns hold integers, text columns text).
\<close>

type_synonym row = "(string \<times> pyval) list"

text \<open>
  A directory entry of the filesystem: a regular file with its content, a directory, or a
  symbolic link with the path it points to.
\<close>

datatype node = File string | Dir | Link string

text \<open>
  The source builds every statement by string formatting. A piece spliced into a statement
  is kept as what it denotes once the statement is parsed: \<open>TokVal v\<close> is a literal that
  denotes the value \<open>v\<close>, \<open>TokNull\<close> is the null literal, \<open>TokBad\<close> is the bare word
  \<open>None\<close>, which names no column of the catalog, and \<open>TokText s\<close> is any other text \<open>s\<close>
  that is not one literal: a bare text, or a quoted text in which a quote character ends
  the literal early. What the store makes of a statement with such a text (it may reject
  it, or read it as an expression, a column reference or a comment) is decided by the
  store, not here.
\<close>

datatype sqltok = TokNull | TokVal pyval | TokBad | TokText string

datatype eqexpr = IsNull | Equals sqltok

datatype cond =
    InList string "sqltok list"
  | AnyOf "(string \<times> eqexpr) list"

datatype stmt =
    Select "string list" string "cond list"
  | Delete string cond
  | Update string "(string \<times> eqexpr) list" "string \<times> eqexpr"

datatype message =
    Line string
  | RenameFailed string string error
  | UpdateFailed string error
  | MovedUpdated string string
  | MovedNoEntry string string
  | BackedUp

datatype fref = BaseRef string | InstRef nat string

record minstance =
  icls :: string
  ifields :: "(string \<times> field) list"

text \<open>
  Everything outside the pure values: the catalog file, the filesystem, the output streams,
  and the Python objects that are shared between calls.

  \<^item> \<open>tables\<close>: the committed content of the catalog file.
  \<^item> \<open>autocommit\<close>: whether a \<open>DELETE\<close> or \<open>UPDATE\<close> executed on a connection is still
    there after \<open>close()\<close> when \<open>commit()\<close> was never called. The source opens every
    connection with \<open>sqlite3.connect(db_filename)\<close> and never commits; with the default
    arguments the module opens a transaction before such a statement and closing discards
    it, which is \<open>autocommit = False\<close>. Section 5 of the design assumes that every
    statement commits by itself, which is \<open>autocommit = True\<close>.
  \<^item> \<open>sqlite\<close>: what the store makes of a statement that holds a \<open>TokText\<close>, given the
    content of the catalog: an error, or the rows returned together with the new rows of
    the table that the statement names. Taken as given.
  \<^item> \<open>nodes\<close>: the directory entry at each absolute path of the filesystem.
  \<^item> \<open>realpath\<close>, \<open>direntry\<close>: path resolution in a given state of the filesystem, taken
    as given. \<open>realpath\<close> is \<open>os.path.realpath\<close>, which \<open>Path.resolve\<close> returns: the
    absolute path with every symbolic link followed. \<open>direntry\<close> is the path of the
    directory entry that a path names, as the system calls that act on the entry itself
    find it: the links of the directory part are followed, a link in the last place is not.
  \<^item> \<open>listdir\<close>, \<open>glob\<close>, \<open>guess_type\<close>: \<open>os.listdir\<close>, \<open>Path.glob\<close> and
    \<open>mimetypes.guess_type\<close>, taken as given.
  \<^item> \<open>isoparse\<close>: \<open>dateutil.parser.isoparse\<close>, taken as given: the timestamp that a
    value is parsed to, held as the ISO-8601 text of that timestamp, or the exception
    raised.
  \<^item> \<open>listed\<close>: the directories \<open>os.listdir\<close> was called on, in order.
  \<^item> \<open>heap\<close>, \<open>id_field\<close>: the \<open>Model\<close> instances of db.py (an instance is its index), and for
    each model class the \<open>Field\<close> object that \<open>cls._meta.id_field\<close> refers to.
\<close>

record world =
  tables :: "string \<Rightarrow> row list"
  autocommit :: bool
  sqlite :: "stmt \<Rightarrow> (string \<Rightarrow> row list) \<Rightarrow> error + (pyval list list \<times> row list)"
  nodes :: "string \<Rightarrow> node option"
  realpath :: "(string \<Rightarrow> node option) \<Rightarrow> string \<Rightarrow> string"
  direntry :: "(string \<Rightarrow> node option) \<Rightarrow> string \<Rightarrow> string"
  listdir :: "string \<Rightarrow> error + string list"
  glob :: "string \<Rightarrow> string \<Rightarrow> string list"
  guess_type :: "string \<Rightarrow> string option"
  isoparse :: "pyval \<Rightarrow> error + pyval"
  listed :: "string list"
  stdout :: "message list"
  stderr :: "message list"
  backups :: "(string \<Rightarrow> row list) list"
  heap :: "minstance list"
  id_field :: "string \<Rightarrow> fref option"

text \<open>
  \<open>Path.resolve\<close> and the directory entry of a path, in the current state of the
  filesystem.
\<close>

definition resolve :: "world \<Rightarrow> string \<Rightarrow> string" where
  "resolve w p = realpath w (nodes w) p"

definition entry :: "world \<Rightarrow> string \<Rightarrow> string" where
  "entry w p = direntry w (nodes w) p"

definition bindE :: "error + 'a \<Rightarrow> ('a \<Rightarrow> error + 'b) \<Rightarrow> error + 'b" where
  "bindE m f = (case m of Inl e \<Rightarrow> Inl e | Inr x \<Rightarrow> f x)"

definition bindS ::
  "(error + 'a) \<times> world \<Rightarrow> ('a \<Rightarrow> world \<Rightarrow> (error + 'b) \<times> world) \<Rightarrow> (error + 'b) \<times> world" where
  "bindS m f = (case m of (Inl e, w) \<Rightarrow> (Inl e, w) | (Inr x, w) \<Rightarrow> f x w)"

text \<open>A list comprehension whose element expression may raise.\<close>

fun mapE :: "('a \<Rightarrow> error + 'b) \<Rightarrow> 'a list \<Rightarrow> error + 'b list" where
  "mapE f [] = Inr []"
| "mapE f (x # xs) =
     (case f x of Inl e \<Rightarrow> Inl e
      | Inr y \<Rightarrow> (case mapE f xs of Inl e \<Rightarrow> Inl e | Inr ys \<Rightarrow> Inr (y # ys)))"

definition row_get :: "row \<Rightarrow> string \<Rightarrow> pyval" where
  "row_get r c = (case map_of r c of Some v \<Rightarrow> v | None \<Rightarrow> PNone)"

definition row_set :: "string \<Rightarrow> pyval \<Rightarrow> row \<Rightarrow> row" where
  "row_set c v r = map (\<lambda>(k, x). if k = c then (k, v) else (k, x)) r"

text \<open>\<open>column = literal\<close>: never true when either side is null.\<close>

fun sql_eq :: "pyval \<Rightarrow> sqltok \<Rightarrow> bool" where
  "sql_eq w (TokVal v) = (w \<noteq> PNone \<and> v \<noteq> PNone \<and> w = v)"
| "sql_eq w TokNull = False"
| "sql_eq w TokBad = False"
| "sql_eq w (TokText s) = False"

fun eq_holds :: "pyval \<Rightarrow> eqexpr \<Rightarrow> bool" where
  "eq_holds w IsNull = (w = PNone)"
| "eq_holds w (Equals t) = sql_eq w t"

fun tok_ok :: "sqltok \<Rightarrow> bool" where
  "tok_ok TokBad = False"
| "tok_ok t = True"

text \<open>Whether a statement holds a text that is left to the store.\<close>

fun tok_text :: "sqltok \<Rightarrow> bool" where
  "tok_text (TokText s) = True"
| "tok_text t = False"

fun eq_text :: "eqexpr \<Rightarrow> bool" where
  "eq_text IsNull = False"
| "eq_text (Equals t) = tok_text t"

fun cond_text :: "cond \<Rightarrow> bool" where
  "cond_text (InList c ts) = list_ex tok_text ts"
| "cond_text (AnyOf xs) = list_ex (\<lambda>(c, e). eq_text e) xs"

fun stmt_text :: "stmt \<Rightarrow> bool" where
  "stmt_text (Select cols t conds) = list_ex cond_text conds"
| "stmt_text (Delete t c) = cond_text c"
| "stmt_text (Update t sets wh) = (list_ex (\<lambda>(c, e). eq_text e) sets \<or> eq_text (snd wh))"

fun eq_ok :: "eqexpr \<Rightarrow> bool" where
  "eq_ok IsNull = True"
| "eq_ok (Equals t) = tok_ok t"

text \<open>
  \<open>c IN ()\<close> is accepted by the store and matches no row; \<open>()\<close>, the text that an empty
  list of alternatives is formatted to, is a syntax error.
\<close>

fun cond_ok :: "cond \<Rightarrow> bool" where
  "cond_ok (InList c ts) = list_all tok_ok ts"
| "cond_ok (AnyOf xs) = (xs \<noteq> [] \<and> list_all (\<lambda>(c, e). eq_ok e) xs)"

fun cond_holds :: "row \<Rightarrow> cond \<Rightarrow> bool" where
  "cond_holds r (InList c ts) = list_ex (sql_eq (row_get r c)) ts"
| "cond_holds r (AnyOf xs) = list_ex (\<lambda>(c, e). eq_holds (row_get r c) e) xs"

text \<open>An item of a \<open>SET\<close> list must be an assignment; \<open>c IS NULL\<close> there is a syntax error.\<close>

fun set_ok :: "string \<times> eqexpr \<Rightarrow> bool" where
  "set_ok (c, IsNull) = False"
| "set_ok (c, Equals t) = tok_ok t"

fun apply_set :: "string \<times> eqexpr \<Rightarrow> row \<Rightarrow> row" where
  "apply_set (c, Equals (TokVal v)) r = row_set c v r"
| "apply_set (c, Equals TokNull) r = row_set c PNone r"
| "apply_set (c, e) r = r"

definition commit_table :: "string \<Rightarrow> row list \<Rightarrow> world \<Rightarrow> world" where
  "commit_table t rs w = (if autocommit w then w\<lparr>tables := (tables w)(t := rs)\<rparr> else w)"

text \<open>
  One \<^verbatim>\<open>with db_connection(...) as conn: conn.execute(sql)\<close>: connect, execute one
  statement, close. A rejected statement raises and changes nothing. The rows of a
  \<open>SELECT\<close> come back as tuples, in the order of the selected columns. A statement names
  one table, and a statement that writes changes no other table. A statement that holds a
  text left to the store is handed to \<open>sqlite\<close>.
\<close>

fun execute :: "stmt \<Rightarrow> world \<Rightarrow> (error + pyval list list) \<times> world" where
  "execute (Select cols t conds) w =
     (if stmt_text (Select cols t conds) then
        (case sqlite w (Select cols t conds) (tables w) of
           Inl e \<Rightarrow> (Inl e, w)
         | Inr (res, rows) \<Rightarrow> (Inr res, w))
      else if list_all cond_ok conds then
        (Inr (map (\<lambda>r. map (row_get r) cols)
                (filter (\<lambda>r. list_all (cond_holds r) conds) (tables w t))), w)
      else (Inl OperationalError, w))"
| "execute (Delete t c) w =
     (if stmt_text (Delete t c) then
        (case sqlite w (Delete t c) (tables w) of
           Inl e \<Rightarrow> (Inl e, w)
         | Inr (res, rows) \<Rightarrow> (Inr [], commit_table t rows w))
      else if cond_ok c then
        (Inr [], commit_table t (filter (\<lambda>r. \<not> cond_holds r c) (tables w t)) w)
      else (Inl OperationalError, w))"
| "execute (Update t sets wh) w =
     (if stmt_text (Update t sets wh) then
        (case sqlite w (Update t sets wh) (tables w) of
           Inl e \<Rightarrow> (Inl e, w)
         | Inr (res, rows) \<Rightarrow> (Inr [], commit_table t rows w))
      else if sets \<noteq> [] \<and> list_all set_ok sets \<and> eq_ok (snd wh) then
        (Inr [], commit_table t
            (map (\<lambda>r. if eq_holds (row_get r (fst wh)) (snd wh) then fold apply_set sets r else r)
               (tables w t)) w)
      else (Inl OperationalError, w))"

text \<open>\<open>str(n)\<close> for an integer, and \<open>str(value)\<close>.\<close>

definition quote :: char where
  "quote = CHR 0x27"

definition digit_char :: "nat \<Rightarrow> char" where
  "digit_char n = ''0123456789'' ! n"

fun str_nat :: "nat \<Rightarrow> string" where
  "str_nat n = (if n < 10 then [digit_char n] else str_nat (n div 10) @ [digit_char (n mod 10)])"

declare str_nat.simps [simp del]

definition str_int :: "int \<Rightarrow> string" where
  "str_int i = (if i < 0 then CHR ''-'' # str_nat (nat (- i)) else str_nat (nat i))"

text \<open>
  A timestamp is held as its ISO-8601 text, in which \<open>T\<close> separates date and time; \<open>str\<close>
  writes a space there.
\<close>

fun py_str :: "pyval \<Rightarrow> string" where
  "py_str PNone = ''None''"
| "py_str (PBool b) = (if b then ''True'' else ''False'')"
| "py_str (PInt n) = str_int n"
| "py_str (PFloat r) = r"
| "py_str (PStr s) = s"
| "py_str (PBytes b) = ''b'' @ [quote] @ b @ [quote]"
| "py_str (PDatetime d) = map (\<lambda>c. if c = CHR ''T'' then CHR '' '' else c) d"

text \<open>The \<open>repr\<close> of a float is a numeric literal unless the float is infinite or not a number.\<close>

definition numeric_repr :: "string \<Rightarrow> bool" where
  "numeric_repr r = (r \<notin> set [''inf'', ''-inf'', ''nan''])"

text \<open>
  \<open>"%s" % value\<close> spliced bare into a statement: a number is a numeric literal (\<open>True\<close> and
  \<open>False\<close> are the store's names for 1 and 0); \<open>None\<close> is a word that names no column; any
  other text is source text of the statement (digits read as a number, a column name as a
  reference to that column, and so on), left to the store.
\<close>

fun bare :: "pyval \<Rightarrow> sqltok" where
  "bare (PInt n) = TokVal (PInt n)"
| "bare (PBool b) = TokVal (PInt (if b then 1 else 0))"
| "bare (PFloat r) = (if numeric_repr r then TokVal (PFloat r) else TokText r)"
| "bare PNone = TokBad"
| "bare v = TokText (py_str v)"

text \<open>
  A text between two quote characters, as the store reads it: a doubled quote character
  inside stands for one quote character, and a single one ends the literal. \<open>sql_literal s\<close>
  is the text that \<open>'s'\<close> denotes when the literal ends exactly at the closing quote, and
  \<open>None\<close> when it ends earlier, so that the rest of \<open>s\<close> is read as source text.
\<close>

fun sql_literal :: "string \<Rightarrow> string option" where
  "sql_literal [] = Some []"
| "sql_literal [c] = (if c = quote then None else Some [c])"
| "sql_literal (c # d # cs) =
     (if c \<noteq> quote then map_option ((#) c) (sql_literal (d # cs))
      else if d = quote then map_option ((#) quote) (sql_literal cs)
      else None)"

definition quoted_text :: "string \<Rightarrow> sqltok" where
  "quoted_text s =
     (case sql_literal s of
        Some t \<Rightarrow> TokVal (PStr t)
      | None \<Rightarrow> TokText ([quote] @ s @ [quote]))"

text \<open>
  \<open>"'%s'" % value\<close> as schemas.py writes it, with no escaping. \<open>None\<close> becomes the text
  \<open>'None'\<close>; the quoted digits of a number denote that number in a numeric column.
\<close>

fun quoted_raw :: "pyval \<Rightarrow> sqltok" where
  "quoted_raw (PInt n) = TokVal (PInt n)"
| "quoted_raw (PFloat r) = (if numeric_repr r then TokVal (PFloat r) else TokVal (PStr r))"
| "quoted_raw v = quoted_text (py_str v)"

section \<open>schemas.py\<close>

record schema =
  columns :: "string list"
  id_column :: "string option"
  table :: string

text \<open>A \<open>BaseSchema\<close> instance is its attribute dictionary.\<close>

type_synonym sobj = "(string \<times> pyval) list"

definition getattr :: "sobj \<Rightarrow> string \<Rightarrow> error + pyval" where
  "getattr obj a = (case map_of obj a of None \<Rightarrow> Inl AttributeError | Some v \<Rightarrow> Inr v)"

fun setattr :: "string \<Rightarrow> pyval \<Rightarrow> sobj \<Rightarrow> sobj" where
  "setattr a v [] = [(a, v)]"
| "setattr a v ((k, x) # rest) = (if k = a then (k, v) # rest else (k, x) # setattr a v rest)"

text \<open>
  \<open>db_fetchall\<close>. When \<open>conn.execute\<close> raises, \<open>cur\<close> is not yet bound and the
  \<open>finally: cur.close()\<close> raises \<open>UnboundLocalError\<close> in its place.
\<close>

definition db_fetchall :: "string \<Rightarrow> string list \<Rightarrow> world \<Rightarrow> (error + sobj list) \<times> world" where
  "db_fetchall t cols w =
     (case execute (Select cols t []) w of
        (Inl e, w') \<Rightarrow> (Inl UnboundLocalError, w')
      | (Inr lst, w') \<Rightarrow> (Inr (map (\<lambda>r. zip cols r) lst), w'))"

definition BaseSchema_list :: "schema \<Rightarrow> world \<Rightarrow> (error + sobj list) \<times> world" where
  "BaseSchema_list cls w = db_fetchall (table cls) (columns cls) w"

definition BaseSchema_update :: "schema \<Rightarrow> sobj \<Rightarrow> world \<Rightarrow> (error + unit) \<times> world" where
  "BaseSchema_update cls self w =
     (case id_column cls of
        None \<Rightarrow> (Inl (ValueError NoIdColumn), w)
      | Some idc \<Rightarrow>
          (case mapE (\<lambda>c. bindE (getattr self c) (\<lambda>v. Inr (c, Equals (quoted_raw v))))
                  (filter (\<lambda>c. c \<noteq> idc) (columns cls)) of
             Inl e \<Rightarrow> (Inl e, w)
           | Inr updates \<Rightarrow>
               (case getattr self idc of
                  Inl e \<Rightarrow> (Inl e, w)
                | Inr i \<Rightarrow>
                    bindS (execute (Update (table cls) updates (idc, Equals (quoted_raw i))) w)
                      (\<lambda>r w'. (Inr (), w')))))"

definition BaseSchema_delete :: "schema \<Rightarrow> sobj \<Rightarrow> world \<Rightarrow> (error + unit) \<times> world" where
  "BaseSchema_delete cls self w =
     (case id_column cls of
        None \<Rightarrow> (Inl (ValueError NoIdColumn), w)
      | Some idc \<Rightarrow>
          (case getattr self idc of
             Inl e \<Rightarrow> (Inl e, w)
           | Inr i \<Rightarrow>
               bindS (execute (Delete (table cls) (AnyOf [(idc, Equals (quoted_raw i))])) w)
                 (\<lambda>r w'. (Inr (), w'))))"

definition BaseSchema_bulk_delete :: "schema \<Rightarrow> sobj list \<Rightarrow> world \<Rightarrow> (error + unit) \<times> world" where
  "BaseSchema_bulk_delete cls objs w =
     (case id_column cls of
        None \<Rightarrow> (Inl (ValueError NoIdColumn), w)
      | Some idc \<Rightarrow>
          (case mapE (\<lambda>obj. bindE (getattr obj idc) (\<lambda>v. Inr (bare v))) objs of
             Inl e \<Rightarrow> (Inl e, w)
           | Inr ids \<Rightarrow>
               bindS (execute (Delete (table cls) (InList idc ids)) w) (\<lambda>r w'. (Inr (), w'))))"

text \<open>\<open>HasTrackForeignKey.delete_by_track_id\<close>.\<close>

definition delete_by_track_id :: "schema \<Rightarrow> pyval list \<Rightarrow> world \<Rightarrow> (error + unit) \<times> world" where
  "delete_by_track_id cls track_ids w =
     bindS (execute (Delete (table cls) (InList ''track_id'' (map bare track_ids))) w)
       (\<lambda>r w'. (Inr (), w'))"

definition schemas_TrackLocation :: schema where
  "schemas_TrackLocation =
     \<lparr>columns = [''id'', ''location'', ''filename'', ''directory'', ''filesize'', ''fs_deleted'',
                 ''needs_verification''],
      id_column = Some ''id'', table = ''track_locations''\<rparr>"

definition schemas_PlaylistTrack :: schema where
  "schemas_PlaylistTrack =
     \<lparr>columns = [''id'', ''playlist_id'', ''track_id'', ''position'', ''pl_datetime_added''],
      id_column = Some ''id'', table = ''PlaylistTracks''\<rparr>"

definition schemas_CrateTrack :: schema where
  "schemas_CrateTrack =
     \<lparr>columns = [''crate_id'', ''track_id''], id_column = None, table = ''crate_tracks''\<rparr>"

definition schemas_Cue :: schema where
  "schemas_Cue =
     \<lparr>columns = [''id'', ''track_id'', ''type'', ''position'', ''length'', ''hotcue'', ''label'',
                 ''color''],
      id_column = Some ''id'', table = ''cues''\<rparr>"

definition schemas_TrackAnalysis :: schema where
  "schemas_TrackAnalysis =
     \<lparr>columns = [''id'', ''track_id'', ''type'', ''description'', ''version'', ''created'',
                 ''data_checksum''],
      id_column = Some ''id'', table = ''track_analysis''\<rparr>"

definition schemas_Track :: schema where
  "schemas_Track =
     \<lparr>columns = [''id'', ''artist'', ''title'', ''album'', ''year'', ''genre'', ''tracknumber'',
                 ''location'', ''comment'', ''url'', ''duration'', ''bitrate'', ''samplerate'',
                 ''cuepoint'', ''bpm'', ''wavesummaryhex'', ''channels'', ''datetime_added'',
                 ''mixxx_deleted'', ''played'', ''header_parsed'', ''filetype'', ''replaygain'',
                 ''timesplayed'', ''rating'', ''key'', ''beats'', ''beats_version'', ''composer'',
                 ''bpm_lock'', ''beats_sub_version'', ''keys'', ''keys_version'',
                 ''keys_sub_version'', ''key_id'', ''grouping'', ''album_artist'',
                 ''coverart_source'', ''coverart_type'', ''coverart_location'', ''coverart_hash'',
                 ''replaygain_peak'', ''tracktotal'', ''color''],
      id_column = Some ''id'', table = ''library''\<rparr>"

text \<open>
  \<open>Track.list_by_locations\<close>. The statement is formatted and executed inside the \<open>try\<close>
  block whose \<open>finally\<close> clause calls \<open>cur.close()\<close>: when reading \<open>l.id\<close> or
  \<open>conn.execute\<close> raises, \<open>cur\<close> is not yet bound and \<open>UnboundLocalError\<close> is raised
  in its place. The fetched rows are tuples, and \<open>cls(**row)\<close> on a tuple raises
  \<open>TypeError\<close>: the list comprehension returns only when no row was fetched.
\<close>

definition Track_list_by_locations :: "sobj list \<Rightarrow> world \<Rightarrow> (error + sobj list) \<times> world" where
  "Track_list_by_locations locations w =
     (case mapE (\<lambda>l. bindE (getattr l ''id'') (\<lambda>v. Inr (bare v))) locations of
        Inl e \<Rightarrow> (Inl UnboundLocalError, w)
      | Inr ids \<Rightarrow>
          (case execute (Select (columns schemas_Track) (table schemas_Track)
                           [InList ''location'' ids]) w of
             (Inl e, w') \<Rightarrow> (Inl UnboundLocalError, w')
           | (Inr lst, w') \<Rightarrow> (if lst = [] then (Inr [], w') else (Inl TypeError, w'))))"

definition schemas_Track_bulk_delete :: "sobj list \<Rightarrow> world \<Rightarrow> (error + unit) \<times> world" where
  "schemas_Track_bulk_delete objs w =
     (case mapE (\<lambda>obj. getattr obj ''id'') objs of
        Inl e \<Rightarrow> (Inl e, w)
      | Inr track_ids \<Rightarrow>
          bindS (delete_by_track_id schemas_PlaylistTrack track_ids w) (\<lambda>u1 w1.
          bindS (delete_by_track_id schemas_CrateTrack track_ids w1) (\<lambda>u2 w2.
          bindS (delete_by_track_id schemas_Cue track_ids w2) (\<lambda>u3 w3.
          bindS (delete_by_track_id schemas_TrackAnalysis track_ids w3) (\<lambda>u4 w4.
          BaseSchema_bulk_delete schemas_Track objs w4)))))"

definition schemas_TrackLocation_bulk_delete :: "sobj list \<Rightarrow> world \<Rightarrow> (error + unit) \<times> world" where
  "schemas_TrackLocation_bulk_delete objs w =
     bindS (Track_list_by_locations objs w) (\<lambda>tracks w1.
     bindS (schemas_Track_bulk_delete tracks w1) (\<lambda>u w2.
     BaseSchema_bulk_delete schemas_TrackLocation objs w2))"

text \<open>The entity types of schemas.py, and \<open>cls.bulk_delete\<close> as each class resolves it.\<close>

datatype entity = TrackLocation | Track | PlaylistTrack | CrateTrack | Cue | TrackAnalysis

fun schema_of :: "entity \<Rightarrow> schema" where
  "schema_of TrackLocation = schemas_TrackLocation"
| "schema_of Track = schemas_Track"
| "schema_of PlaylistTrack = schemas_PlaylistTrack"
| "schema_of CrateTrack = schemas_CrateTrack"
| "schema_of Cue = schemas_Cue"
| "schema_of TrackAnalysis = schemas_TrackAnalysis"

fun schemas_bulk_delete :: "entity \<Rightarrow> sobj list \<Rightarrow> world \<Rightarrow> (error + unit) \<times> world" where
  "schemas_bulk_delete TrackLocation objs w = schemas_TrackLocation_bulk_delete objs w"
| "schemas_bulk_delete Track objs w = schemas_Track_bulk_delete objs w"
| "schemas_bulk_delete e objs w = BaseSchema_bulk_delete (schema_of e) objs w"

section \<open>Paths and the filesystem\<close>

text \<open>
  A path is the text \<open>pathlib\<close> holds for it (no trailing slash, no doubled slash).
  \<open>os.path.dirname\<close> of \<open>posixpath\<close>: the text up to the last slash, with trailing
  slashes removed unless it consists of slashes only.
\<close>

definition slash_head :: "string \<Rightarrow> string" where
  "slash_head p = rev (dropWhile (\<lambda>c. c \<noteq> CHR ''/'') (rev p))"

definition rstrip_slash :: "string \<Rightarrow> string" where
  "rstrip_slash p = rev (dropWhile (\<lambda>c. c = CHR ''/'') (rev p))"

definition os_path_dirname :: "string \<Rightarrow> string" where
  "os_path_dirname p =
     (let head = slash_head p
      in if head \<noteq> [] \<and> head \<noteq> replicate (length head) (CHR ''/'') then rstrip_slash head
         else head)"

text \<open>\<open>PurePath.name\<close>, \<open>PurePath.parent\<close> and \<open>joinpath\<close> with a single name.\<close>

definition path_name :: "string \<Rightarrow> string" where
  "path_name p = (if p = ''.'' then [] else rev (takeWhile (\<lambda>c. c \<noteq> CHR ''/'') (rev p)))"

definition path_parent :: "string \<Rightarrow> string" where
  "path_parent p =
     (let head = slash_head p
      in if head = [] then ''.''
         else if rstrip_slash head = [] then ''/'' else rstrip_slash head)"

definition joinpath :: "string \<Rightarrow> string \<Rightarrow> string" where
  "joinpath d n =
     (if n = [] then d
      else if d \<noteq> [] \<and> last d = CHR ''/'' then d @ n
      else d @ ''/'' @ n)"

definition is_file :: "world \<Rightarrow> string \<Rightarrow> bool" where
  "is_file w p = (case nodes w (resolve w p) of Some (File c) \<Rightarrow> True | _ \<Rightarrow> False)"

definition is_dir :: "world \<Rightarrow> string \<Rightarrow> bool" where
  "is_dir w p = (case nodes w (resolve w p) of Some Dir \<Rightarrow> True | _ \<Rightarrow> False)"

text \<open>
  \<open>Path.rename\<close> acts on the directory entries that the two paths name: a symbolic link
  is renamed itself, and what it points to stays where it is. The entry moved is a regular
  file or a symbolic link (every call in the source is guarded by \<open>is_file\<close>, which
  follows links, or moves back an entry just moved): a missing source and a directory at
  the target are errors, a regular file or a link at the target is replaced silently. The
  parent of the target is a directory at every call (the destination directory was
  checked, and the parent of the source just held the entry), so that failure is not a
  branch here.
\<close>

definition move_entry :: "node \<Rightarrow> string \<Rightarrow> string \<Rightarrow> world \<Rightarrow> (error + unit) \<times> world" where
  "move_entry n src dst w =
     (case nodes w (entry w dst) of
        Some Dir \<Rightarrow> (Inl IsADirectoryError, w)
      | _ \<Rightarrow> (Inr (), w\<lparr>nodes := (nodes w)(entry w src := None, entry w dst := Some n)\<rparr>))"

definition rename :: "string \<Rightarrow> string \<Rightarrow> world \<Rightarrow> (error + unit) \<times> world" where
  "rename src dst w =
     (case nodes w (entry w src) of
        None \<Rightarrow> (Inl FileNotFoundError, w)
      | Some Dir \<Rightarrow> (Inl OSError, w)
      | Some (File c) \<Rightarrow> move_entry (File c) src dst w
      | Some (Link t) \<Rightarrow> move_entry (Link t) src dst w)"

definition os_listdir :: "string \<Rightarrow> world \<Rightarrow> (error + string list) \<times> world" where
  "os_listdir d w = (listdir w d, w\<lparr>listed := listed w @ [d]\<rparr>)"

section \<open>schemas.py: the catalog-side orphan scan\<close>

text \<open>\<open>os.path.dirname(l.location)\<close>: a value that is not a path raises \<open>TypeError\<close>.\<close>

fun dirname_of :: "pyval \<Rightarrow> error + string" where
  "dirname_of (PStr s) = Inr (os_path_dirname s)"
| "dirname_of v = Inl TypeError"

text \<open>
  The first loop of \<open>list_orphans\<close>, over the set of directory names:
  \<^verbatim>\<open>
    try:
        dirs[dirname] = os.listdir(dirname)
    except FileNotFoundError:
        dirs[dirname] = []
  \<close>
\<close>

fun probe_dirs ::
  "string list \<Rightarrow> (string \<rightharpoonup> string list) \<Rightarrow> world
     \<Rightarrow> (error + (string \<rightharpoonup> string list)) \<times> world" where
  "probe_dirs [] dirs w = (Inr dirs, w)"
| "probe_dirs (d # ds) dirs w =
     (case os_listdir d w of
        (Inr entries, w') \<Rightarrow> probe_dirs ds (dirs(d \<mapsto> entries)) w'
      | (Inl FileNotFoundError, w') \<Rightarrow> probe_dirs ds (dirs(d \<mapsto> [])) w'
      | (Inl e, w') \<Rightarrow> (Inl e, w'))"

text \<open>The second loop: \<open>location.filename not in dirs[dirname]\<close>.\<close>

fun collect_orphans :: "(string \<rightharpoonup> string list) \<Rightarrow> sobj list \<Rightarrow> error + sobj list" where
  "collect_orphans dirs [] = Inr []"
| "collect_orphans dirs (location # rest) =
     bindE (bindE (getattr location ''location'') dirname_of) (\<lambda>dirname.
     bindE (getattr location ''filename'') (\<lambda>filename.
     (case dirs dirname of
        None \<Rightarrow> Inl KeyError
      | Some entries \<Rightarrow>
          bindE (collect_orphans dirs rest) (\<lambda>orphans.
            Inr (if filename \<notin> PStr ` set entries then location # orphans else orphans)))))"

text \<open>
  \<open>TrackLocation.list_orphans\<close> of schemas.py. The iteration order of a Python set is not
  fixed; \<open>remdups\<close> is one such order.
\<close>

definition schemas_list_orphans :: "world \<Rightarrow> (error + sobj list) \<times> world" where
  "schemas_list_orphans w =
     bindS (BaseSchema_list schemas_TrackLocation w) (\<lambda>locations w1.
       (case mapE (\<lambda>l. bindE (getattr l ''location'') dirname_of) locations of
          Inl e \<Rightarrow> (Inl e, w1)
        | Inr dirnames \<Rightarrow>
            bindS (probe_dirs (remdups dirnames) Map.empty w1) (\<lambda>dirs w2.
              (collect_orphans dirs locations, w2))))"

section \<open>mixxxdb.py\<close>

text \<open>
  \<open>update_db\<close>, the closure inside \<open>move_files\<close>. \<open>locations\<close> is the list fetched once at
  the start of \<open>move_files\<close>; its objects are mutated in place, so the list is passed in
  and handed back. The matching rows are selected before the loop runs, by
  \<open>srcpath.resolve()\<close> in the state in which \<open>update_db\<close> is called, which is the state
  after the rename.
\<close>

fun update_db_loop ::
  "string \<Rightarrow> nat list \<Rightarrow> bool \<Rightarrow> sobj list \<Rightarrow> world \<Rightarrow> (error + bool) \<times> sobj list \<times> world" where
  "update_db_loop destpath [] db_updated locations w = (Inr db_updated, locations, w)"
| "update_db_loop destpath (i # rest) db_updated locations w =
     (let location = setattr ''directory'' (PStr (path_parent destpath))
                       (setattr ''location'' (PStr destpath) (locations ! i));
          locations' = locations[i := location]
      in case BaseSchema_update schemas_TrackLocation location w of
           (Inl e, w') \<Rightarrow> (Inl e, locations', w')
         | (Inr u, w') \<Rightarrow> update_db_loop destpath rest True locations' w')"

definition matching :: "pyval list \<Rightarrow> string \<Rightarrow> nat list" where
  "matching vals p = map fst (filter (\<lambda>(i, v). v = PStr p) (enumerate 0 vals))"

definition update_db ::
  "string \<Rightarrow> string \<Rightarrow> sobj list \<Rightarrow> world \<Rightarrow> (error + bool) \<times> sobj list \<times> world" where
  "update_db srcpath destpath locations w =
     (case mapE (\<lambda>l. getattr l ''location'') locations of
        Inl e \<Rightarrow> (Inl e, locations, w)
      | Inr vals \<Rightarrow>
          update_db_loop destpath (matching vals (resolve w srcpath)) False locations w)"

text \<open>The body of the loop over \<open>sources\<close> in \<open>move_files\<close>.\<close>

definition move_source ::
  "string \<Rightarrow> string \<Rightarrow> sobj list \<Rightarrow> world \<Rightarrow> (error + unit) \<times> sobj list \<times> world" where
  "move_source destdir source locations w =
     (if is_file w source then
        (let destpath = joinpath destdir (path_name source)
         in case rename source destpath w of
              (Inl e, w1) \<Rightarrow>
                (Inr (), locations, w1\<lparr>stderr := stderr w1 @ [RenameFailed source destpath e]\<rparr>)
            | (Inr u, w1) \<Rightarrow>
                (case update_db source destpath locations w1 of
                   (Inl e, locations', w2) \<Rightarrow>
                     (case rename destpath source
                             (w2\<lparr>stderr := stderr w2 @ [UpdateFailed source e]\<rparr>) of
                        (Inl e', w3) \<Rightarrow> (Inl e', locations', w3)
                      | (Inr u', w3) \<Rightarrow> (Inr (), locations', w3))
                 | (Inr db_updated, locations', w2) \<Rightarrow>
                     (Inr (), locations',
                      w2\<lparr>stdout := stdout w2 @
                           [if db_updated then MovedUpdated source destpath
                            else MovedNoEntry source destpath]\<rparr>)))
      else (Inr (), locations, w))"

fun move_loop ::
  "string \<Rightarrow> string list \<Rightarrow> sobj list \<Rightarrow> world \<Rightarrow> (error + unit) \<times> sobj list \<times> world" where
  "move_loop destdir [] locations w = (Inr (), locations, w)"
| "move_loop destdir (source # rest) locations w =
     (case move_source destdir source locations w of
        (Inl e, locations', w') \<Rightarrow> (Inl e, locations', w')
      | (Inr u, locations', w') \<Rightarrow> move_loop destdir rest locations' w')"

definition move_files :: "string list \<Rightarrow> string \<Rightarrow> world \<Rightarrow> (error + unit) \<times> world" where
  "move_files sources destination w =
     bindS (BaseSchema_list schemas_TrackLocation w) (\<lambda>locations w1.
       (let destdir = resolve w1 destination
        in if \<not> is_dir w1 destdir then (Inl (ValueError DestinationNotDir), w1)
           else (case move_loop destdir sources locations w1 of
                   (r, locations', w2) \<Rightarrow> (r, w2))))"

text \<open>The loop of \<open>list_orphan_files\<close> over the globbed paths.\<close>

definition is_audio :: "string option \<Rightarrow> bool" where
  "is_audio mimetype = (case mimetype of None \<Rightarrow> False | Some m \<Rightarrow> m \<noteq> [] \<and> take 6 m = ''audio/'')"

fun scan_paths :: "pyval list \<Rightarrow> string list \<Rightarrow> world \<Rightarrow> world" where
  "scan_paths locations [] w = w"
| "scan_paths locations (path # rest) w =
     scan_paths locations rest
       (if is_file w path then
          (if is_audio (guess_type w path) then
             (if PStr (resolve w path) \<notin> set locations then w\<lparr>stdout := stdout w @ [Line path]\<rparr>
              else w)
           else w)
        else w)"

definition list_orphan_files :: "string \<Rightarrow> bool \<Rightarrow> world \<Rightarrow> (error + unit) \<times> world" where
  "list_orphan_files source recursive w =
     (let paths = (if recursive then glob w source ''**/*'' else glob w source ''*'')
      in bindS (BaseSchema_list schemas_TrackLocation w) (\<lambda>ls w1.
           (case mapE (\<lambda>l. getattr l ''location'') ls of
              Inl e \<Rightarrow> (Inl e, w1)
            | Inr locations \<Rightarrow> (Inr (), scan_paths locations paths w1))))"

text \<open>
  \<open>delete_orphan_locations\<close>: the backup copy, then \<open>location.delete(db_filename)\<close> and a
  line of output for each orphan. \<open>location.location + " -- DELETED\n"\<close> raises
  \<open>TypeError\<close> when the location is not a text.
\<close>

definition backup_db :: "world \<Rightarrow> world" where
  "backup_db w = w\<lparr>backups := backups w @ [tables w]\<rparr>"

fun delete_each :: "sobj list \<Rightarrow> world \<Rightarrow> (error + unit) \<times> world" where
  "delete_each [] w = (Inr (), w)"
| "delete_each (location # rest) w =
     bindS (BaseSchema_delete schemas_TrackLocation location w) (\<lambda>u w1.
       (case getattr location ''location'' of
          Inr (PStr s) \<Rightarrow> delete_each rest (w1\<lparr>stdout := stdout w1 @ [Line (s @ '' -- DELETED'')]\<rparr>)
        | Inr v \<Rightarrow> (Inl TypeError, w1)
        | Inl e \<Rightarrow> (Inl e, w1)))"

definition delete_orphan_locations :: "world \<Rightarrow> (error + unit) \<times> world" where
  "delete_orphan_locations w =
     bindS (schemas_list_orphans (backup_db w)) (\<lambda>orphans w1.
     bindS (delete_each orphans w1) (\<lambda>u w2.
       (Inr (), w2\<lparr>stdout := stdout w2 @ [BackedUp]\<rparr>)))"

section \<open>db.py: conversions of a column descriptor\<close>

text \<open>\<open>bool(value)\<close>.\<close>

fun py_bool :: "pyval \<Rightarrow> bool" where
  "py_bool PNone = False"
| "py_bool (PBool b) = b"
| "py_bool (PInt n) = (n \<noteq> 0)"
| "py_bool (PFloat r) = (r \<noteq> ''0.0'' \<and> r \<noteq> ''-0.0'')"
| "py_bool (PStr s) = (s \<noteq> [])"
| "py_bool (PBytes b) = (b \<noteq> [])"
| "py_bool (PDatetime d) = True"

text \<open>
  \<open>to_python\<close>: a timestamp column calls \<open>isoparse\<close> of \<open>dateutil\<close>, which is the first
  argument here; a boolean column calls \<open>bool\<close>; every other column returns the value.
\<close>

fun to_python :: "(pyval \<Rightarrow> error + pyval) \<Rightarrow> fkind \<Rightarrow> pyval \<Rightarrow> error + pyval" where
  "to_python parse DatetimeField v = parse v"
| "to_python parse BooleanField v = Inr (PBool (py_bool v))"
| "to_python parse k v = Inr v"

text \<open>
  \<open>to_db_not_null\<close>: text columns quote and escape \<open>str(value)\<close>; a timestamp column quotes
  \<open>value.isoformat()\<close>, which only a \<open>datetime\<close> has; a boolean column gives 1 or 0; every
  other column returns the value itself, which is then spliced bare.
\<close>

fun to_db_not_null :: "fkind \<Rightarrow> pyval \<Rightarrow> error + sqltok" where
  "to_db_not_null TextField v = Inr (TokVal (PStr (py_str v)))"
| "to_db_not_null (CharField n) v = Inr (TokVal (PStr (py_str v)))"
| "to_db_not_null DatetimeField (PDatetime d) = Inr (TokVal (PStr d))"
| "to_db_not_null DatetimeField v = Inl AttributeError"
| "to_db_not_null BooleanField v = Inr (TokVal (PInt (if py_bool v then 1 else 0)))"
| "to_db_not_null k v = Inr (bare v)"

text \<open>
  \<open>Field.get_equals_expr(value=EMPTY)\<close>; \<open>None\<close> for the argument stands for \<open>EMPTY\<close>.
\<close>

definition get_equals_expr :: "field \<Rightarrow> pyval option \<Rightarrow> error + eqexpr" where
  "get_equals_expr f v =
     (let real_value = (case v of None \<Rightarrow> fvalue f | Some x \<Rightarrow> x)
      in if real_value = PNone then Inr IsNull
         else bindE (to_db_not_null (kind f) real_value) (\<lambda>t. Inr (Equals t)))"

section \<open>db.py: models\<close>

text \<open>
  A model class: its name, the \<open>table\<close> and \<open>id_column\<close> of its \<open>Meta\<close> (either may be
  missing), and \<open>_meta.base_fields\<close> in declaration order.
\<close>

record model_class =
  cname :: string
  mtable :: "string option"
  mid_column :: "string option"
  base_fields :: "(string \<times> field) list"

definition set_field :: "nat \<Rightarrow> string \<Rightarrow> pyval \<Rightarrow> world \<Rightarrow> world" where
  "set_field self field_name v w =
     w\<lparr>heap := (heap w)[self :=
          (heap w ! self)\<lparr>ifields :=
             map (\<lambda>(k, f). if k = field_name then (k, f\<lparr>fvalue := v\<rparr>) else (k, f))
               (ifields (heap w ! self))\<rparr>]\<rparr>"

text \<open>
  The loop of \<open>Model.__init__\<close> over the fields (the lazy import of a foreign key's target
  class has no effect on what follows and is left out).
\<close>

fun init_fields ::
  "nat \<Rightarrow> (string \<times> field) list \<Rightarrow> (string \<times> pyval) list \<Rightarrow> world \<Rightarrow> (error + unit) \<times> world" where
  "init_fields self [] kwargs w = (Inr (), w)"
| "init_fields self ((field_name, f) # rest) kwargs w =
     (case map_of kwargs field_name of
        Some v \<Rightarrow>
          (case to_python (isoparse w) (kind f) v of
             Inl e \<Rightarrow> (Inl e, w)
           | Inr x \<Rightarrow> init_fields self rest kwargs (set_field self field_name x w))
      | None \<Rightarrow> init_fields self rest kwargs (set_field self field_name PNone w))"

text \<open>
  \<open>Model.__init__\<close>:
  \<^verbatim>\<open>
    self._fields = {k: copy(v) for k, v in self._meta.base_fields.items()}
    self._meta.id_field = self._fields[self._meta.id_column]
    for field_name, field in self._fields.items(): ...
  \<close>
  \<open>self._meta\<close> is the one \<open>ModelMeta\<close> object of the class: the second line stores, in
  the class, a reference to the identity field of the instance under construction. A
  class without \<open>id_column\<close> has no such attribute in its meta object.
\<close>

definition Model_init ::
  "model_class \<Rightarrow> (string \<times> pyval) list \<Rightarrow> world \<Rightarrow> (error + nat) \<times> world" where
  "Model_init cls kwargs w =
     (case mid_column cls of
        None \<Rightarrow> (Inl AttributeError, w)
      | Some idc \<Rightarrow>
          (case map_of (base_fields cls) idc of
             None \<Rightarrow> (Inl KeyError, w)
           | Some f \<Rightarrow>
               (let self = length (heap w);
                    w1 = w\<lparr>heap := heap w @ [\<lparr>icls = cname cls, ifields = base_fields cls\<rparr>],
                           id_field := (id_field w)(cname cls := Some (InstRef self idc))\<rparr>
                in bindS (init_fields self (base_fields cls) kwargs w1) (\<lambda>u w2. (Inr self, w2)))))"

text \<open>\<open>Model.__getattribute__\<close> and \<open>Model.__setattr__\<close> for the name of a column.\<close>

definition Model_getattr :: "nat \<Rightarrow> string \<Rightarrow> world \<Rightarrow> error + pyval" where
  "Model_getattr self a w =
     (case map_of (ifields (heap w ! self)) a of
        None \<Rightarrow> Inl AttributeError
      | Some f \<Rightarrow> Inr (fvalue f))"

definition Model_setattr :: "nat \<Rightarrow> string \<Rightarrow> pyval \<Rightarrow> world \<Rightarrow> world" where
  "Model_setattr self a v w =
     (if a \<in> fst ` set (ifields (heap w ! self)) then set_field self a v w else w)"

text \<open>
  \<open>Model.get_id\<close>: \<^verbatim>\<open>return self._meta.id_field.value\<close>, the value of whichever field the
  class-level reference points to.
\<close>

definition get_id :: "model_class \<Rightarrow> nat \<Rightarrow> world \<Rightarrow> error + pyval" where
  "get_id cls self w =
     (case id_field w (cname cls) of
        None \<Rightarrow> Inl AttributeError
      | Some (BaseRef c) \<Rightarrow>
          (case map_of (base_fields cls) c of None \<Rightarrow> Inl KeyError | Some f \<Rightarrow> Inr (fvalue f))
      | Some (InstRef a c) \<Rightarrow>
          (case map_of (ifields (heap w ! a)) c of None \<Rightarrow> Inl KeyError | Some f \<Rightarrow> Inr (fvalue f)))"

text \<open>\<open>Model.get_equals_expr(field_name)\<close>: the column name and the fragment of its own field.\<close>

definition Model_get_equals_expr :: "nat \<Rightarrow> string \<Rightarrow> world \<Rightarrow> error + (string \<times> eqexpr)" where
  "Model_get_equals_expr self field_name w =
     (case map_of (ifields (heap w ! self)) field_name of
        None \<Rightarrow> Inl KeyError
      | Some f \<Rightarrow> bindE (get_equals_expr f None) (\<lambda>e. Inr (field_name, e)))"

definition required :: "'a option \<Rightarrow> error + 'a" where
  "required x = (case x of None \<Rightarrow> Inl AttributeError | Some v \<Rightarrow> Inr v)"

definition Model_bulk_delete :: "model_class \<Rightarrow> nat list \<Rightarrow> world \<Rightarrow> (error + unit) \<times> world" where
  "Model_bulk_delete cls objs w =
     (case bindE (required (mtable cls)) (\<lambda>t.
           bindE (required (mid_column cls)) (\<lambda>idc.
           bindE (mapE (\<lambda>obj. bindE (get_id cls obj w) (\<lambda>v. Inr (bare v))) objs) (\<lambda>ids.
           Inr (Delete t (InList idc ids))))) of
        Inl e \<Rightarrow> (Inl e, w)
      | Inr sql \<Rightarrow> bindS (execute sql w) (\<lambda>r w'. (Inr (), w')))"

text \<open>
  \<open>Model.list(**conds)\<close>: a condition is a single value or a sequence of values; a keyword
  that names no field is skipped.
\<close>

datatype condarg = Single pyval | Seq "pyval list"

fun candidates :: "condarg \<Rightarrow> pyval list" where
  "candidates (Single v) = [v]"
| "candidates (Seq vs) = vs"

fun db_conds :: "model_class \<Rightarrow> (string \<times> condarg) list \<Rightarrow> error + cond list" where
  "db_conds cls [] = Inr []"
| "db_conds cls ((k, vseq) # rest) =
     (case map_of (base_fields cls) k of
        None \<Rightarrow> db_conds cls rest
      | Some f \<Rightarrow>
          bindE (mapE (\<lambda>v. bindE (get_equals_expr f (Some v)) (\<lambda>e. Inr (k, e))) (candidates vseq))
            (\<lambda>alts. bindE (db_conds cls rest) (\<lambda>cs. Inr (AnyOf alts # cs))))"

fun build_all :: "model_class \<Rightarrow> pyval list list \<Rightarrow> world \<Rightarrow> (error + nat list) \<times> world" where
  "build_all cls [] w = (Inr [], w)"
| "build_all cls (r # rest) w =
     bindS (Model_init cls (zip (map fst (base_fields cls)) r) w) (\<lambda>obj w1.
     bindS (build_all cls rest w1) (\<lambda>objs w2. (Inr (obj # objs), w2)))"

definition Model_list ::
  "model_class \<Rightarrow> (string \<times> condarg) list \<Rightarrow> world \<Rightarrow> (error + nat list) \<times> world" where
  "Model_list cls conds w =
     (case bindE (db_conds cls conds) (\<lambda>cs.
           bindE (required (mtable cls)) (\<lambda>t.
           Inr (Select (map fst (base_fields cls)) t cs))) of
        Inl e \<Rightarrow> (Inl e, w)
      | Inr sql \<Rightarrow> bindS (execute sql w) (\<lambda>lst w1. build_all cls lst w1))"

definition Model_delete :: "model_class \<Rightarrow> nat \<Rightarrow> world \<Rightarrow> (error + unit) \<times> world" where
  "Model_delete cls self w =
     (case get_id cls self w of
        Inl e \<Rightarrow> (Inl e, w)
      | Inr i \<Rightarrow>
          if i = PNone then (Inl (ValueError IdIsNone), w)
          else (case bindE (required (mtable cls)) (\<lambda>t.
                     bindE (required (mid_column cls)) (\<lambda>idc.
                     bindE (Model_get_equals_expr self idc w) (\<lambda>e.
                     Inr (Delete t (AnyOf [e]))))) of
                  Inl e \<Rightarrow> (Inl e, w)
                | Inr sql \<Rightarrow> bindS (execute sql w) (\<lambda>r w'. (Inr (), w'))))"

text \<open>
  \<open>Model.update\<close>. After the test of \<open>get_id()\<close> and after \<open>_check()\<close>, the statement is
  formatted by
  \<^verbatim>\<open>"UPDATE %s SET %s WHERE %s" % (table, ", ".join(updates), id_column, self.get_equals_expr(id_column))\<close>:
  three placeholders and four arguments, so that, once the arguments have been evaluated,
  the formatting raises \<open>TypeError\<close>. The call of \<open>conn.execute\<close> that follows is never
  reached.
\<close>

definition Model_update :: "model_class \<Rightarrow> nat \<Rightarrow> world \<Rightarrow> (error + unit) \<times> world" where
  "Model_update cls self w =
     (case get_id cls self w of
        Inl e \<Rightarrow> (Inl e, w)
      | Inr i \<Rightarrow>
          if i = PNone then (Inl (ValueError IdIsNone), w)
          else (case bindE (check_fields (cname cls) (ifields (heap w ! self))) (\<lambda>u.
                     bindE (required (mid_column cls)) (\<lambda>idc.
                     bindE (mapE (\<lambda>n. Model_get_equals_expr self n w)
                              (filter (\<lambda>n. n \<noteq> idc) (map fst (ifields (heap w ! self))))) (\<lambda>updates.
                     bindE (required (mtable cls)) (\<lambda>t.
                     bindE (Model_get_equals_expr self idc w) (\<lambda>e.
                     Inl TypeError))))) of
                  Inl e \<Rightarrow> (Inl e, w)
                | Inr sql \<Rightarrow> bindS (execute sql w) (\<lambda>r w'. (Inr (), w'))))"

section \<open>models.py\<close>

definition fld :: "fkind \<Rightarrow> bool \<Rightarrow> pyval \<Rightarrow> field" where
  "fld k n d = \<lparr>kind = k, nullable = n, fvalue = PNone, fdefault = d\<rparr>"

definition models_TrackLocation :: model_class where
  "models_TrackLocation =
     \<lparr>cname = ''TrackLocation'', mtable = Some ''track_locations'', mid_column = Some ''id'',
      base_fields =
        [(''id'', fld IntegerField False PNone),
         (''location'', fld (CharField 512) True PNone),
         (''directory'', fld (CharField 512) True PNone),
         (''filename'', fld (CharField 512) True PNone),
         (''filesize'', fld IntegerField True PNone),
         (''fs_deleted'', fld BooleanField True PNone),
         (''needs_verification'', fld BooleanField True PNone)]\<rparr>"

definition models_Track :: model_class where
  "models_Track =
     \<lparr>cname = ''Track'', mtable = Some ''library'', mid_column = Some ''id'',
      base_fields =
        [(''id'', fld IntegerField False PNone),
         (''artist'', fld (CharField 64) True PNone),
         (''title'', fld (CharField 64) True PNone),
         (''album'', fld (CharField 64) True PNone),
         (''year'', fld (CharField 16) True PNone),
         (''genre'', fld (CharField 64) True PNone),
         (''tracknumber'', fld (CharField 3) True PNone),
         (''location'', fld (ForeignKeyField ''TrackLocation'') True PNone),
         (''comment'', fld (CharField 256) True PNone),
         (''url'', fld (CharField 256) True PNone),
         (''duration'', fld IntegerField True PNone),
         (''bitrate'', fld IntegerField True PNone),
         (''samplerate'', fld IntegerField True PNone),
         (''cuepoint'', fld IntegerField True PNone),
         (''bpm'', fld FloatField True PNone),
         (''wavesummaryhex'', fld BinaryField True PNone),
         (''channels'', fld IntegerField True PNone),
         (''datetime_added'', fld DatetimeField True PNone),
         (''mixxx_deleted'', fld BooleanField True PNone),
         (''played'', fld BooleanField True PNone),
         (''header_parsed'', fld BooleanField True (PBool False)),
         (''filetype'', fld (CharField 8) True (PStr ''?'')),
         (''replaygain'', fld FloatField True (PFloat ''0.0'')),
         (''timesplayed'', fld IntegerField True (PInt 0)),
         (''rating'', fld IntegerField True (PInt 0)),
         (''key'', fld (CharField 8) True (PStr [])),
         (''beats'', fld BinaryField True PNone),
         (''beats_version'', fld TextField True PNone),
         (''composer'', fld (CharField 64) True (PStr [])),
         (''bpm_lock'', fld BooleanField True (PBool False)),
         (''beats_sub_version'', fld TextField True (PStr [])),
         (''keys'', fld BinaryField True PNone),
         (''keys_version'', fld TextField True PNone),
         (''keys_sub_version'', fld TextField True PNone),
         (''key_id'', fld IntegerField True (PInt 0)),
         (''grouping'', fld TextField True (PStr [])),
         (''album_artist'', fld TextField True (PStr [])),
         (''coverart_source'', fld IntegerField True (PInt 0)),
         (''coverart_type'', fld IntegerField True (PInt 0)),
         (''coverart_location'', fld TextField True (PStr [])),
         (''coverart_hash'', fld IntegerField True (PInt 0)),
         (''replaygain_peak'', fld FloatField True (PFloat ''-1.0'')),
         (''tracktotal'', fld TextField True (PStr ''//'')),
         (''color'', fld IntegerField True PNone)]\<rparr>"

definition models_TrackAnalysis :: model_class where
  "models_TrackAnalysis =
     \<lparr>cname = ''TrackAnalysis'', mtable = Some ''track_analysis'', mid_column = Some ''id'',
      base_fields =
        [(''id'', fld IntegerField False PNone),
         (''track_id'', fld (ForeignKeyField ''TrackLocation'') False PNone),
         (''type'', fld (CharField 512) True PNone),
         (''description'', fld (CharField 1024) True PNone),
         (''version'', fld (CharField 512) True PNone),
         (''created'', fld DatetimeField True PNone),
         (''data_checksum'', fld (CharField 512) True PNone)]\<rparr>"

definition models_Cue :: model_class where
  "models_Cue =
     \<lparr>cname = ''Cue'', mtable = Some ''cues'', mid_column = Some ''id'',
      base_fields =
        [(''id'', fld IntegerField False PNone),
         (''track_id'', fld (ForeignKeyField ''Track'') False PNone),
         (''type'', fld IntegerField False (PInt 0)),
         (''position'', fld IntegerField False (PInt (- 1))),
         (''length'', fld IntegerField False (PInt 0)),
         (''hotcue'', fld IntegerField False (PInt (- 1))),
         (''label'', fld TextField False (PStr [])),
         (''color'', fld IntegerField False (PInt 4294901760))]\<rparr>"

definition models_CrateTrack :: model_class where
  "models_CrateTrack =
     \<lparr>cname = ''CrateTrack'', mtable = Some ''crate_tracks'', mid_column = None,
      base_fields =
        [(''crate_id'', fld IntegerField False PNone),
         (''track_id'', fld (ForeignKeyField ''Track'') False PNone)]\<rparr>"

definition models_PlaylistTrack :: model_class where
  "models_PlaylistTrack =
     \<lparr>cname = ''PlaylistTrack'', mtable = Some ''PlaylistTracks'', mid_column = Some ''id'',
      base_fields =
        [(''id'', fld IntegerField False PNone),
         (''playlist_id'', fld IntegerField True PNone),
         (''track_id'', fld (ForeignKeyField ''Track'') True PNone),
         (''position'', fld IntegerField True PNone),
         (''pl_datetime_added'', fld DatetimeField True PNone)]\<rparr>"

text \<open>\<open>[obj.id for obj in objs]\<close>.\<close>

definition ids_of :: "nat list \<Rightarrow> world \<Rightarrow> error + pyval list" where
  "ids_of objs w = mapE (\<lambda>obj. Model_getattr obj ''id'' w) objs"

text \<open>
  \<open>Track.bulk_delete\<close> of models.py; the call for \<open>CrateTrack\<close> is commented out in the
  source (``TODO: How to handle model with composite key?'').
\<close>

definition models_Track_bulk_delete :: "nat list \<Rightarrow> world \<Rightarrow> (error + unit) \<times> world" where
  "models_Track_bulk_delete objs w =
     (case ids_of objs w of
        Inl e \<Rightarrow> (Inl e, w)
      | Inr ids \<Rightarrow>
          bindS (Model_bulk_delete models_Track objs w) (\<lambda>u w1.
          bindS (Model_list models_Cue [(''track_id'', Seq ids)] w1) (\<lambda>cues w2.
          bindS (Model_bulk_delete models_Cue cues w2) (\<lambda>u w3.
          bindS (Model_list models_PlaylistTrack [(''track_id'', Seq ids)] w3) (\<lambda>pts w4.
          Model_bulk_delete models_PlaylistTrack pts w4)))))"

definition models_TrackLocation_bulk_delete :: "nat list \<Rightarrow> world \<Rightarrow> (error + unit) \<times> world" where
  "models_TrackLocation_bulk_delete objs w =
     (case ids_of objs w of
        Inl e \<Rightarrow> (Inl e, w)
      | Inr ids \<Rightarrow>
          bindS (Model_bulk_delete models_TrackLocation objs w) (\<lambda>u w1.
          bindS (Model_list models_TrackAnalysis [(''track_id'', Seq ids)] w1) (\<lambda>tas w2.
          bindS (Model_bulk_delete models_TrackAnalysis tas w2) (\<lambda>u w3.
          bindS (Model_list models_Track [(''location'', Seq ids)] w3) (\<lambda>tracks w4.
          models_Track_bulk_delete tracks w4)))))"

definition models_TrackLocation_delete :: "nat \<Rightarrow> world \<Rightarrow> (error + unit) \<times> world" where
  "models_TrackLocation_delete self w =
     bindS (Model_delete models_TrackLocation self w) (\<lambda>u w1.
       (case Model_getattr self ''id'' w1 of
          Inl e \<Rightarrow> (Inl e, w1)
        | Inr i \<Rightarrow>
            bindS (Model_list models_Track [(''location'', Single i)] w1) (\<lambda>tracks w2.
            models_Track_bulk_delete tracks w2)))"

text \<open>
  \<open>TrackLocation.list_orphans\<close> of models.py: as in schemas.py, after dropping the rows
  whose location is \<open>None\<close>.
\<close>

fun located :: "nat list \<Rightarrow> world \<Rightarrow> error + nat list" where
  "located [] w = Inr []"
| "located (l # rest) w =
     bindE (Model_getattr l ''location'' w) (\<lambda>v.
     bindE (located rest w) (\<lambda>ls. Inr (if v \<noteq> PNone then l # ls else ls)))"

fun models_collect_orphans ::
  "(string \<rightharpoonup> string list) \<Rightarrow> nat list \<Rightarrow> world \<Rightarrow> error + nat list" where
  "models_collect_orphans dirs [] w = Inr []"
| "models_collect_orphans dirs (l # rest) w =
     bindE (bindE (Model_getattr l ''location'' w) dirname_of) (\<lambda>dirname.
     bindE (Model_getattr l ''filename'' w) (\<lambda>filename.
     (case dirs dirname of
        None \<Rightarrow> Inl KeyError
      | Some entries \<Rightarrow>
          bindE (models_collect_orphans dirs rest w) (\<lambda>orphans.
            Inr (if filename \<notin> PStr ` set entries then l # orphans else orphans)))))"

definition models_list_orphans :: "world \<Rightarrow> (error + nat list) \<times> world" where
  "models_list_orphans w =
     bindS (Model_list models_TrackLocation [] w) (\<lambda>all_rows w1.
       (case located all_rows w1 of
          Inl e \<Rightarrow> (Inl e, w1)
        | Inr locations \<Rightarrow>
            (case mapE (\<lambda>l. bindE (Model_getattr l ''location'' w1) dirname_of) locations of
               Inl e \<Rightarrow> (Inl e, w1)
             | Inr dirnames \<Rightarrow>
                 bindS (probe_dirs (remdups dirnames) Map.empty w1) (\<lambda>dirs w2.
                   (models_collect_orphans dirs locations w2, w2)))))"

section \<open>Example states\<close>

text \<open>
  The state of a fresh process: no model instance yet, and \<open>_meta.id_field\<close> of each model
  class with an \<open>id_column\<close> set by \<open>ModelMeta.__init__\<close> to the class's own template
  field; nothing on disk, an empty catalog. The paths of the examples are absolute and in
  normal form, and no directory of theirs is a symbolic link: a path names the entry at
  that very path, and resolves to itself. No statement of the examples holds a text that
  is left to the store, unless an example says so.
\<close>

definition initial_id_field :: "string \<Rightarrow> fref option" where
  "initial_id_field =
     map_of [(''TrackLocation'', BaseRef ''id''), (''Track'', BaseRef ''id''),
             (''TrackAnalysis'', BaseRef ''id''), (''Cue'', BaseRef ''id''),
             (''PlaylistTrack'', BaseRef ''id'')]"

text \<open>
  The timestamps of the examples are midnight of the first three days of 2020, each
  stored as its ISO-8601 text, which \<open>isoparse\<close> parses to that timestamp; \<open>isoparse(None)\<close>
  raises \<open>TypeError\<close>. The examples hand \<open>isoparse\<close> nothing else.
\<close>

fun example_isoparse :: "pyval \<Rightarrow> error + pyval" where
  "example_isoparse (PStr s) =
     (if s \<in> set [''2020-01-01T00:00:00'', ''2020-01-02T00:00:00'', ''2020-01-03T00:00:00'']
      then Inr (PDatetime s) else Inl (ValueError Bare))"
| "example_isoparse v = Inl TypeError"

definition empty_world :: "bool \<Rightarrow> world" where
  "empty_world ac =
     \<lparr>tables = (\<lambda>t. []), autocommit = ac, sqlite = (\<lambda>s T. Inl OperationalError),
      nodes = (\<lambda>p. None), realpath = (\<lambda>ns p. p), direntry = (\<lambda>ns p. p),
      listdir = (\<lambda>d. Inl FileNotFoundError), glob = (\<lambda>r p. []), guess_type = (\<lambda>p. None),
      isoparse = example_isoparse,
      listed = [], stdout = [], stderr = [], backups = [], heap = [],
      id_field = initial_id_field\<rparr>"

text \<open>A row of a table: the given columns, and null in every other column of the schema.\<close>

definition mkrow :: "schema \<Rightarrow> (string \<times> pyval) list \<Rightarrow> row" where
  "mkrow cls given = map (\<lambda>c. (c, case map_of given c of Some v \<Rightarrow> v | None \<Rightarrow> PNone)) (columns cls)"

definition location_row :: "int \<Rightarrow> string \<Rightarrow> string \<Rightarrow> string \<Rightarrow> row" where
  "location_row i loc dir fname =
     mkrow schemas_TrackLocation
       [(''id'', PInt i), (''location'', PStr loc), (''filename'', PStr fname),
        (''directory'', PStr dir), (''filesize'', PInt 1000), (''fs_deleted'', PInt 0),
        (''needs_verification'', PInt 0)]"

definition track_row :: "int \<Rightarrow> int \<Rightarrow> row" where
  "track_row i loc =
     mkrow schemas_Track
       [(''id'', PInt i), (''title'', PStr ''Song''), (''location'', PInt loc),
        (''datetime_added'', PStr ''2020-01-01T00:00:00'')]"

text \<open>
  A small library: one file \<open>/music/a.mp3\<close> recorded as Location 1, Track 10 on that
  Location, and a cue, a crate membership, a playlist membership and an analysis of Track 10.
\<close>

definition library_tables :: "string \<Rightarrow> row list" where
  "library_tables =
     (\<lambda>t. [])
       (''track_locations'' := [location_row 1 ''/music/a.mp3'' ''/music'' ''a.mp3''],
        ''library'' := [track_row 10 1],
        ''cues'' := [mkrow schemas_Cue [(''id'', PInt 7), (''track_id'', PInt 10)]],
        ''crate_tracks'' := [mkrow schemas_CrateTrack [(''crate_id'', PInt 5), (''track_id'', PInt 10)]],
        ''PlaylistTracks'' :=
           [mkrow schemas_PlaylistTrack
              [(''id'', PInt 8), (''playlist_id'', PInt 2), (''track_id'', PInt 10),
               (''pl_datetime_added'', PStr ''2020-01-02T00:00:00'')]],
        ''track_analysis'' := [mkrow schemas_TrackAnalysis
              [(''id'', PInt 3), (''track_id'', PInt 10),
               (''created'', PStr ''2020-01-03T00:00:00'')]])"

definition library_world :: "bool \<Rightarrow> world" where
  "library_world ac = (empty_world ac)\<lparr>tables := library_tables\<rparr>"

text \<open>
  A file system for the examples: the directory \<open>/music\<close> with the recorded file
  \<open>a.mp3\<close>, and an empty directory \<open>/dest\<close>.
\<close>

definition music_world :: "bool \<Rightarrow> world" where
  "music_world ac =
     (library_world ac)
       \<lparr>nodes := (\<lambda>p. None)(''/'' := Some Dir, ''/music'' := Some Dir, ''/dest'' := Some Dir,
                            ''/music/a.mp3'' := Some (File ''A'')),
        listdir := (\<lambda>d. Inl FileNotFoundError)(''/music'' := Inr [''a.mp3''], ''/dest'' := Inr [])\<rparr>"

text \<open>
  What the loop of \<open>Model.__init__\<close> computes when no conversion raises: the converted
  value of each field, written into the instance's own copy of the field.
\<close>

fun convert_field ::
  "(pyval \<Rightarrow> error + pyval) \<Rightarrow> (string \<times> pyval) list \<Rightarrow> string \<times> field \<Rightarrow> error + (string \<times> pyval)" where
  "convert_field parse kwargs (n, f) =
     (case map_of kwargs n of
        Some v \<Rightarrow> bindE (to_python parse (kind f) v) (\<lambda>x. Inr (n, x))
      | None \<Rightarrow> Inr (n, PNone))"

fun upd_value :: "(string \<times> field) list \<Rightarrow> string \<times> pyval \<Rightarrow> (string \<times> field) list" where
  "upd_value cur (n, v) = map (\<lambda>(k, f). if k = n then (k, f\<lparr>fvalue := v\<rparr>) else (k, f)) cur"

text \<open>The keyword arguments of a \<open>TrackLocation\<close> built from a full row.\<close>

definition location_kwargs :: "pyval \<Rightarrow> pyval \<Rightarrow> pyval \<Rightarrow> pyval \<Rightarrow> (string \<times> pyval) list" where
  "location_kwargs i loc fname fsize =
     [(''id'', i), (''location'', loc), (''directory'', PStr ''/music''),
      (''filename'', fname), (''filesize'', fsize), (''fs_deleted'', PInt 0),
      (''needs_verification'', PInt 0)]"

text \<open>
  \<open>a = TrackLocation(id=1, ...)\<close> alone; then \<open>b = TrackLocation(id=2, ...)\<close> as well; or
  \<open>a\<close> and then \<open>TrackLocation()\<close>, an instance with no value in any column. The catalog
  holds the rows 1 and 2.
\<close>

definition two_rows_world :: "bool \<Rightarrow> world" where
  "two_rows_world ac =
     (empty_world ac)
       \<lparr>tables := (\<lambda>t. [])(''track_locations'' :=
                    [location_row 1 ''/music/a.mp3'' ''/music'' ''a.mp3'',
                     location_row 2 ''/music/b.mp3'' ''/music'' ''b.mp3''])\<rparr>"

definition with_a :: "bool \<Rightarrow> world" where
  "with_a ac =
     snd (Model_init models_TrackLocation
            (location_kwargs (PInt 1) (PStr ''/music/a.mp3'') (PStr ''a.mp3'') (PInt 1000))
            (two_rows_world ac))"

definition with_a_b :: "bool \<Rightarrow> world" where
  "with_a_b ac =
     snd (Model_init models_TrackLocation
            (location_kwargs (PInt 2) (PStr ''/music/b.mp3'') (PStr ''b.mp3'') (PInt 2000))
            (with_a ac))"

definition with_a_blank :: "bool \<Rightarrow> world" where
  "with_a_blank ac = snd (Model_init models_TrackLocation [] (with_a ac))"

text \<open>
  A \<open>Cue\<close> of models.py with a value of the declared type in every column:
  \<^verbatim>\<open>Cue(id=7, track_id=10, type=0, position=-1, length=0, hotcue=-1, label="", color=4294901760)\<close>.
\<close>

definition cue_kwargs :: "(string \<times> pyval) list" where
  "cue_kwargs =
     [(''id'', PInt 7), (''track_id'', PInt 10), (''type'', PInt 0), (''position'', PInt (- 1)),
      (''length'', PInt 0), (''hotcue'', PInt (- 1)), (''label'', PStr []),
      (''color'', PInt 4294901760)]"

definition with_cue :: "bool \<Rightarrow> world" where
  "with_cue ac = snd (Model_init models_Cue cue_kwargs (empty_world ac))"

text \<open>The example library after the file \<open>/music/a.mp3\<close> has been removed from disk.\<close>

definition orphan_world :: "bool \<Rightarrow> world" where
  "orphan_world ac =
     (library_world ac)\<lparr>listdir := (\<lambda>d. Inl FileNotFoundError)(''/music'' := Inr [])\<rparr>"

text \<open>A \<open>TrackLocation\<close> instance of models.py with the given values in its own fields.\<close>

definition location_instance :: "pyval \<Rightarrow> pyval \<Rightarrow> pyval \<Rightarrow> pyval \<Rightarrow> pyval \<Rightarrow> pyval \<Rightarrow> pyval \<Rightarrow> minstance" where
  "location_instance i loc dir fname fsize del ver =
     \<lparr>icls = ''TrackLocation'', ifields =
          [(''id'', \<lparr>kind = IntegerField, nullable = False, fvalue = i, fdefault = PNone\<rparr>),
           (''location'', \<lparr>kind = CharField 512, nullable = True, fvalue = loc, fdefault = PNone\<rparr>),
           (''directory'', \<lparr>kind = CharField 512, nullable = True, fvalue = dir, fdefault = PNone\<rparr>),
           (''filename'', \<lparr>kind = CharField 512, nullable = True, fvalue = fname, fdefault = PNone\<rparr>),
           (''filesize'', \<lparr>kind = IntegerField, nullable = True, fvalue = fsize, fdefault = PNone\<rparr>),
           (''fs_deleted'', \<lparr>kind = BooleanField, nullable = True, fvalue = del, fdefault = PNone\<rparr>),
           (''needs_verification'', \<lparr>kind = BooleanField, nullable = True, fvalue = ver, fdefault = PNone\<rparr>)]\<rparr>"

text \<open>
  The filesystem-side scan as the design states it, for comparison with
  \<open>list_orphan_files\<close>: the recorded locations of the catalog, the files the source
  compares against them, and the result when the recorded locations are resolved too.
\<close>

definition recorded_locations :: "world \<Rightarrow> pyval list" where
  "recorded_locations w = map (\<lambda>r. row_get r ''location'') (tables w ''track_locations'')"

definition candidate_paths :: "world \<Rightarrow> string \<Rightarrow> bool \<Rightarrow> string list" where
  "candidate_paths w source recursive =
     filter (\<lambda>p. is_file w p \<and> is_audio (guess_type w p))
       (glob w source (if recursive then ''**/*'' else ''*''))"

fun resolved_value :: "world \<Rightarrow> pyval \<Rightarrow> pyval" where
  "resolved_value w (PStr s) = PStr (resolve w s)"
| "resolved_value w v = v"

definition orphan_files_as_designed :: "world \<Rightarrow> string \<Rightarrow> bool \<Rightarrow> string list" where
  "orphan_files_as_designed w source recursive =
     filter (\<lambda>p. PStr (resolve w p) \<notin> resolved_value w ` set (recorded_locations w))
       (candidate_paths w source recursive)"

text \<open>
  A catalog that records the file \<open>/home/u/music/a.mp3\<close> by the relative path
  \<open>music/a.mp3\<close>, in a process whose working directory is \<open>/home/u\<close>.
\<close>

definition relative_world :: world where
  "relative_world =
     (empty_world True)
       \<lparr>tables := (\<lambda>t. [])(''track_locations'' := [location_row 1 ''music/a.mp3'' ''music'' ''a.mp3'']),
        nodes := (\<lambda>p. None)(''/home/u/music'' := Some Dir,
                             ''/home/u/music/a.mp3'' := Some (File ''A''),
                             ''/home/u/music/notes.txt'' := Some (File ''N'')),
        realpath := (\<lambda>ns p. if p = ''music/a.mp3'' then ''/home/u/music/a.mp3'' else p),
        glob := (\<lambda>root pattern. if root = ''/home/u/music'' then
                   [''/home/u/music/a.mp3'', ''/home/u/music/notes.txt''] else []),
        guess_type := (\<lambda>p. if p = ''/home/u/music/a.mp3'' then Some ''audio/mpeg''
                            else if p = ''/home/u/music/notes.txt'' then Some ''text/plain''
                            else None)\<rparr>"




definition listable :: "world \<Rightarrow> string \<Rightarrow> bool" where
  "listable w d =
     (case listdir w d of Inr entries \<Rightarrow> True | Inl FileNotFoundError \<Rightarrow> True | Inl e \<Rightarrow> False)"

definition current_listing :: "world \<Rightarrow> string \<Rightarrow> string list" where
  "current_listing w d = (case listdir w d of Inr entries \<Rightarrow> entries | Inl e \<Rightarrow> [])"


text \<open>
  Two files with the same base name, and a destination directory whose name has an
  apostrophe: \<open>/x/f.mp3\<close> is not in the catalog, \<open>/y/f.mp3\<close> is Location 2. The
  \<open>UPDATE\<close> that moves Location 2 there holds the text \<open>'/80's/f.mp3'\<close>, in which the
  literal ends at the apostrophe; the store rejects that statement (a syntax error
  at \<open>s\<close>).
\<close>

definition eighties :: string where
  "eighties = ''/80'' @ [quote] @ ''s''"

definition clash_world :: "bool \<Rightarrow> world" where
  "clash_world ac =
     (empty_world ac)
       \<lparr>tables := (\<lambda>t. [])(''track_locations'' := [location_row 2 ''/y/f.mp3'' ''/y'' ''f.mp3'']),
        nodes := (\<lambda>p. None)(''/x'' := Some Dir, ''/y'' := Some Dir, eighties := Some Dir,
                             ''/x/f.mp3'' := Some (File ''A''), ''/y/f.mp3'' := Some (File ''B''))\<rparr>"

text \<open>
  The example library with a symbolic link \<open>/links/a.mp3\<close> to the recorded file. The
  link is the only one and points to a regular file: a path resolves to what the entry
  at it points to while that entry is a link, and to itself otherwise.
\<close>

definition linked_world :: "bool \<Rightarrow> world" where
  "linked_world ac =
     (music_world ac)
       \<lparr>nodes := (nodes (music_world ac))
                   (''/links'' := Some Dir, ''/links/a.mp3'' := Some (Link ''/music/a.mp3'')),
        realpath := (\<lambda>ns p. case ns p of Some (Link t) \<Rightarrow> t | _ \<Rightarrow> p)\<rparr>"

section \<open>Properties\<close>

subsection \<open>Sequencing and the frame of a statement\<close>

lemma bindE_simps [simp]: "bindE (Inl e) f = Inl e" "bindE (Inr x) f = f x"
  by (simp_all add: bindE_def)

lemma bindS_simps [simp]: "bindS (Inl e, w) f = (Inl e, w)" "bindS (Inr x, w) f = f x w"
  by (simp_all add: bindS_def)

lemma bindS_tables:
  assumes "tables (snd m) t = tables w t"
    and "\<And>x w1. tables w1 t = tables w t \<Longrightarrow> tables (snd (f x w1)) t = tables w t"
  shows "tables (snd (bindS m f)) t = tables w t"
  using assms by (cases m) (auto simp: bindS_def split: sum.splits)

lemma commit_table_same [simp]: "commit_table t (tables w t) w = w"
  by (simp add: commit_table_def)

lemma BaseSchema_list_eq:
  "BaseSchema_list cls w =
     (Inr (map (\<lambda>r. zip (columns cls) (map (row_get r) (columns cls))) (tables w (table cls))), w)"
  by (simp add: BaseSchema_list_def db_fetchall_def comp_def)

lemma set_field_tables [simp]: "tables (set_field a n v w) = tables w"
  by (simp add: set_field_def)

lemma init_fields_tables [simp]: "tables (snd (init_fields a fs kw w)) = tables w"
  by (induction a fs kw w rule: init_fields.induct) (auto split: option.splits sum.splits)

lemma Model_init_tables [simp]: "tables (snd (Model_init cls kw w)) = tables w"
proof -
  have "tables (snd (bindS (init_fields a fs kw w1) (\<lambda>u w2. (Inr a, w2)))) = tables w1" for a fs w1
    using init_fields_tables [of a fs kw w1]
    by (cases "init_fields a fs kw w1") (auto simp: bindS_def split: sum.splits)
  then show ?thesis
    by (auto simp: Model_init_def Let_def split: option.splits)
qed

lemma build_all_tables [simp]: "tables (snd (build_all cls rs w)) = tables w"
proof (induction rs arbitrary: w)
  case Nil
  show ?case by simp
next
  case (Cons r rs)
  show ?case
    using Cons [of "snd (Model_init cls (zip (map fst (base_fields cls)) r) w)"]
      Model_init_tables [of cls "zip (map fst (base_fields cls)) r" w]
    by (cases "Model_init cls (zip (map fst (base_fields cls)) r) w";
        cases "build_all cls rs (snd (Model_init cls (zip (map fst (base_fields cls)) r) w))")
       (auto simp: bindS_def split: sum.splits)
qed

lemma Model_list_tables [simp]: "tables (snd (Model_list cls conds w)) = tables w"
proof -
  have "tables (snd (bindS (execute (Select cols t cs) w) (\<lambda>lst w1. build_all cls lst w1))) = tables w"
    for cols t cs
    by (auto simp: bindS_def split: sum.splits)
  then show ?thesis
    by (auto simp: Model_list_def bindE_def required_def split: sum.splits option.splits)
qed

lemma Model_bulk_delete_tables:
  "mtable cls \<noteq> Some t \<Longrightarrow> tables (snd (Model_bulk_delete cls objs w)) t = tables w t"
  by (auto simp: Model_bulk_delete_def bindE_def required_def bindS_def commit_table_def
      split: sum.splits option.splits prod.splits if_splits)

lemma models_Track_bulk_delete_crate:
  "tables (snd (models_Track_bulk_delete objs w)) ''crate_tracks'' = tables w ''crate_tracks''"
  unfolding models_Track_bulk_delete_def
  apply (cases "ids_of objs w")
   apply simp
  apply simp
  apply (rule bindS_tables)
   apply (simp add: Model_bulk_delete_tables models_Track_def)
  apply (rule bindS_tables)
   apply simp
  apply (rule bindS_tables)
   apply (simp add: Model_bulk_delete_tables models_Cue_def)
  apply (rule bindS_tables)
   apply simp
  apply (simp add: Model_bulk_delete_tables models_PlaylistTrack_def)
  done

lemma resolve_entry_simps [simp]:
  "resolve (w\<lparr>stdout := a\<rparr>) = resolve w" "resolve (w\<lparr>stderr := b\<rparr>) = resolve w"
  "resolve (w\<lparr>tables := c\<rparr>) = resolve w" "resolve (w\<lparr>listed := d\<rparr>) = resolve w"
  "entry (w\<lparr>stdout := a\<rparr>) = entry w" "entry (w\<lparr>stderr := b\<rparr>) = entry w"
  "entry (w\<lparr>tables := c\<rparr>) = entry w" "entry (w\<lparr>listed := d\<rparr>) = entry w"
  by (simp_all add: resolve_def entry_def fun_eq_iff)

lemma sql_literal_plain: "quote \<notin> set s \<Longrightarrow> sql_literal s = Some s"
  by (induction s rule: sql_literal.induct) auto

lemma quoted_text_plain: "quote \<notin> set s \<Longrightarrow> quoted_text s = TokVal (PStr s)"
  by (simp add: quoted_text_def sql_literal_plain)

subsection \<open>The destination of a move\<close>

text \<open>
  C10. When the destination does not name an existing directory, \<open>move_files\<close> raises the
  value error and leaves the whole state as it was (no rename, no statement that writes,
  no output), whatever the list of sources is.
\<close>

theorem C10_bad_destination:
  "\<not> is_dir w (resolve w destination) \<Longrightarrow>
     move_files sources destination w = (Inl (ValueError DestinationNotDir), w)"
  by (simp add: move_files_def BaseSchema_list_eq)

theorem C10_bad_destination_witness:
  "\<not> is_dir (music_world True) (resolve (music_world True) ''/music/a.mp3'')
   \<and> move_files [''/music/a.mp3'', ''/music/b.mp3''] ''/music/a.mp3'' (music_world True)
       = (Inl (ValueError DestinationNotDir), music_world True)"
proof -
  have h: "\<not> is_dir (music_world True) (resolve (music_world True) ''/music/a.mp3'')"
    by (simp add: is_dir_def resolve_def music_world_def library_world_def empty_world_def)
  from h C10_bad_destination [OF h] show ?thesis by simp
qed

subsection \<open>Deleting nothing\<close>

lemma delete_by_track_id_empty [simp]: "delete_by_track_id cls [] w = (Inr (), w)"
  by (simp add: delete_by_track_id_def)

lemma BaseSchema_bulk_delete_empty:
  "BaseSchema_bulk_delete cls [] w =
     (case id_column cls of None \<Rightarrow> (Inl (ValueError NoIdColumn), w) | Some c \<Rightarrow> (Inr (), w))"
  by (simp add: BaseSchema_bulk_delete_def split: option.splits)

lemma Track_list_by_locations_empty [simp]: "Track_list_by_locations [] w = (Inr [], w)"
  by (simp add: Track_list_by_locations_def)

lemma schemas_Track_bulk_delete_empty [simp]: "schemas_Track_bulk_delete [] w = (Inr (), w)"
  by (simp add: schemas_Track_bulk_delete_def BaseSchema_bulk_delete_empty schemas_Track_def)

text \<open>
  C4, as stated, at \<open>CrateTrack\<close>: \<open>bulk_delete\<close> of no rows raises, because the class has no
  identity column.
\<close>

theorem C4_counterexample:
  "fst (schemas_bulk_delete CrateTrack [] (library_world True)) = Inl (ValueError NoIdColumn)"
  by (simp add: BaseSchema_bulk_delete_empty schemas_CrateTrack_def)

text \<open>
  C4, amended. For every entity type that declares an identity column, \<open>bulk_delete\<close> of
  an empty set of rows completes without an error and leaves the whole state, and so
  every table, unchanged; this holds for the classes of schemas.py with their overrides
  and for \<open>Model.bulk_delete\<close> of db.py on a class with a table and an identity column.
  For the composite-key \<open>CrateTrack\<close> of schemas.py it raises the value error of the
  missing identity column, and still changes nothing.
\<close>

theorem C4_empty_bulk_delete:
  "(id_column (schema_of e) \<noteq> None \<longrightarrow> schemas_bulk_delete e [] w = (Inr (), w))
   \<and> (id_column (schema_of e) = None \<longrightarrow>
        e = CrateTrack \<and> schemas_bulk_delete e [] w = (Inl (ValueError NoIdColumn), w))
   \<and> (mtable cls \<noteq> None \<and> mid_column cls \<noteq> None \<longrightarrow> Model_bulk_delete cls [] w = (Inr (), w))"
  by (cases e)
     (auto simp: BaseSchema_bulk_delete_empty schemas_TrackLocation_bulk_delete_def
        schemas_TrackLocation_def schemas_Track_def schemas_PlaylistTrack_def schemas_CrateTrack_def
        schemas_Cue_def schemas_TrackAnalysis_def Model_bulk_delete_def required_def)

theorem C4_empty_bulk_delete_witness:
  "id_column (schema_of TrackLocation) \<noteq> None
   \<and> schemas_bulk_delete TrackLocation [] (library_world True) = (Inr (), library_world True)
   \<and> id_column (schema_of Cue) \<noteq> None
   \<and> schemas_bulk_delete Cue [] (library_world True) = (Inr (), library_world True)
   \<and> id_column (schema_of CrateTrack) = None
   \<and> schemas_bulk_delete CrateTrack [] (library_world True)
       = (Inl (ValueError NoIdColumn), library_world True)
   \<and> mtable models_Cue \<noteq> None \<and> mid_column models_Cue \<noteq> None
   \<and> Model_bulk_delete models_Cue [] (library_world True) = (Inr (), library_world True)"
proof -
  have 1: "id_column (schema_of TrackLocation) \<noteq> None" "id_column (schema_of Cue) \<noteq> None"
    "id_column (schema_of CrateTrack) = None"
    by (simp_all add: schemas_TrackLocation_def schemas_Cue_def schemas_CrateTrack_def)
  have 2: "mtable models_Cue \<noteq> None \<and> mid_column models_Cue \<noteq> None"
    by (simp add: models_Cue_def)
  from 1 2
    C4_empty_bulk_delete [of TrackLocation "library_world True" models_Cue]
    C4_empty_bulk_delete [of Cue "library_world True" models_Cue]
    C4_empty_bulk_delete [of CrateTrack "library_world True" models_Cue]
  show ?thesis by simp
qed

subsection \<open>The cascade of a Location\<close>

lemma models_TrackLocation_bulk_delete_crate:
  "tables (snd (models_TrackLocation_bulk_delete objs w)) ''crate_tracks'' = tables w ''crate_tracks''"
  unfolding models_TrackLocation_bulk_delete_def
  apply (cases "ids_of objs w")
   apply simp
  apply simp
  apply (rule bindS_tables)
   apply (simp add: Model_bulk_delete_tables models_TrackLocation_def)
  apply (rule bindS_tables)
   apply simp
  apply (rule bindS_tables)
   apply (simp add: Model_bulk_delete_tables models_TrackAnalysis_def)
  apply (rule bindS_tables)
   apply simp
  apply (simp add: models_Track_bulk_delete_crate)
  done

lemma library_rows:
  "tables (library_world ac) ''crate_tracks'' = [[(''crate_id'', PInt 5), (''track_id'', PInt 10)]]"
  "tables (library_world ac) ''library'' = [track_row 10 1]"
  "tables (library_world ac) ''track_locations'' = [location_row 1 ''/music/a.mp3'' ''/music'' ''a.mp3'']"
  by (simp_all add: library_world_def library_tables_def empty_world_def mkrow_def schemas_CrateTrack_def)

lemma track_row_columns:
  "row_get (track_row i l) ''id'' = PInt i" "row_get (track_row i l) ''location'' = PInt l"
  by (simp_all add: track_row_def mkrow_def schemas_Track_def row_get_def map_of_map_restrict
      restrict_map_def)

lemma location_row_columns:
  "row_get (location_row i l d f) ''id'' = PInt i"
  "row_get (location_row i l d f) ''location'' = PStr l"
  "row_get (location_row i l d f) ''filename'' = PStr f"
  "row_get (location_row i l d f) ''directory'' = PStr d"
  by (simp_all add: location_row_def mkrow_def schemas_TrackLocation_def row_get_def)

text \<open>
  C1. The cascade of models.py never reaches the crate memberships: whatever Location
  rows \<open>TrackLocation.bulk_delete\<close> is given and whatever the catalog holds, the table
  \<open>crate_tracks\<close> is afterwards what it was before (the call for \<open>CrateTrack\<close> is
  commented out in \<open>Track.bulk_delete\<close>). In the example library, Track 10 is on
  Location 1 and is in crate 5; after fetching the Location rows and deleting them through
  \<open>TrackLocation.bulk_delete\<close>, the membership of Track 10 is still in the catalog,
  whether statements are committed or not.
\<close>

theorem C1_models_cascade_leaves_crate_tracks:
  "tables (snd (models_TrackLocation_bulk_delete objs w)) ''crate_tracks'' = tables w ''crate_tracks''
   \<and> row_get (hd (tables (library_world ac) ''library'')) ''id'' = PInt 10
   \<and> row_get (hd (tables (library_world ac) ''library'')) ''location'' = PInt 1
   \<and> row_get (hd (tables (library_world ac) ''track_locations'')) ''id'' = PInt 1
   \<and> tables (snd (bindS (Model_list models_TrackLocation [] (library_world ac))
                     models_TrackLocation_bulk_delete)) ''crate_tracks''
       = [[(''crate_id'', PInt 5), (''track_id'', PInt 10)]]"
proof -
  have "tables (snd (bindS (Model_list models_TrackLocation [] (library_world ac))
                     models_TrackLocation_bulk_delete)) ''crate_tracks''
        = tables (library_world ac) ''crate_tracks''"
    by (rule bindS_tables) (simp_all add: models_TrackLocation_bulk_delete_crate)
  then show ?thesis
    by (simp add: models_TrackLocation_bulk_delete_crate library_rows track_row_columns
        location_row_columns)
qed

text \<open>
  In schemas.py the cascade stops before it deletes anything as soon as one Track is on a
  given Location: \<open>Track.list_by_locations\<close> raises \<open>TypeError\<close> on the first fetched row.
\<close>

lemma C1_schemas_cascade_example:
  "schemas_TrackLocation_bulk_delete
      [location_row 1 ''/music/a.mp3'' ''/music'' ''a.mp3''] (library_world ac)
     = (Inl TypeError, library_world ac)"
proof -
  have g: "getattr (location_row 1 ''/music/a.mp3'' ''/music'' ''a.mp3'') ''id'' = Inr (PInt 1)"
    by (simp add: getattr_def location_row_def mkrow_def schemas_TrackLocation_def)
  have t: "table schemas_Track = ''library''"
    by (simp add: schemas_Track_def)
  show ?thesis
    by (simp add: schemas_TrackLocation_bulk_delete_def Track_list_by_locations_def g t
        library_rows track_row_columns)
qed

subsection \<open>What a construction leaves behind\<close>

lemma isoparse_set_field [simp]: "isoparse (set_field self n x w) = isoparse w"
  by (simp add: set_field_def)

lemma set_field_heap:
  "set_field self n x w =
     w\<lparr>heap := (heap w)[self := (heap w ! self)\<lparr>ifields := upd_value (ifields (heap w ! self)) (n, x)\<rparr>]\<rparr>"
  by (simp add: set_field_def)

lemma init_fields_closed:
  "self < length (heap w) \<Longrightarrow> mapE (convert_field (isoparse w) kw) fs = Inr vals \<Longrightarrow>
     init_fields self fs kw w =
       (Inr (), w\<lparr>heap := (heap w)[self :=
                   (heap w ! self)\<lparr>ifields := foldl upd_value (ifields (heap w ! self)) vals\<rparr>]\<rparr>)"
proof (induction fs arbitrary: w vals)
  case Nil
  then show ?case by simp
next
  case (Cons nf fs)
  obtain n f where nf: "nf = (n, f)" by (cases nf)
  from Cons.prems(2) nf obtain x vals' where
    c: "convert_field (isoparse w) kw (n, f) = Inr (n, x)"
    and m: "mapE (convert_field (isoparse w) kw) fs = Inr vals'"
    and v: "vals = (n, x) # vals'"
    by (auto simp: bindE_def split: sum.splits option.splits)
  let ?w = "set_field self n x w"
  have l: "self < length (heap ?w)" using Cons.prems(1) by (simp add: set_field_def)
  have m': "mapE (convert_field (isoparse ?w) kw) fs = Inr vals'" using m by simp
  have step: "init_fields self (nf # fs) kw w = init_fields self fs kw ?w"
    using c nf by (auto simp: bindE_def split: sum.splits option.splits)
  show ?case
    unfolding step Cons.IH [OF l m'] v
    using Cons.prems(1) by (simp add: set_field_heap)
qed

lemma Model_init_closed:
  "mid_column cls = Some idc \<Longrightarrow> map_of (base_fields cls) idc = Some f \<Longrightarrow>
   mapE (convert_field (isoparse w) kw) (base_fields cls) = Inr vals \<Longrightarrow>
     Model_init cls kw w =
       (Inr (length (heap w)),
        w\<lparr>heap := heap w @ [\<lparr>icls = cname cls, ifields = foldl upd_value (base_fields cls) vals\<rparr>],
          id_field := (id_field w)(cname cls := Some (InstRef (length (heap w)) idc))\<rparr>)"
  by (simp add: Model_init_def Let_def init_fields_closed)

lemma TrackLocation_init:
  "Model_init models_TrackLocation (location_kwargs i loc fname fsize) w =
     (Inr (length (heap w)),
      w\<lparr>heap := heap w @ [\<lparr>icls = ''TrackLocation'', ifields =
          [(''id'', \<lparr>kind = IntegerField, nullable = False, fvalue = i, fdefault = PNone\<rparr>),
           (''location'', \<lparr>kind = CharField 512, nullable = True, fvalue = loc, fdefault = PNone\<rparr>),
           (''directory'', \<lparr>kind = CharField 512, nullable = True, fvalue = PStr ''/music'', fdefault = PNone\<rparr>),
           (''filename'', \<lparr>kind = CharField 512, nullable = True, fvalue = fname, fdefault = PNone\<rparr>),
           (''filesize'', \<lparr>kind = IntegerField, nullable = True, fvalue = fsize, fdefault = PNone\<rparr>),
           (''fs_deleted'', \<lparr>kind = BooleanField, nullable = True, fvalue = PBool False, fdefault = PNone\<rparr>),
           (''needs_verification'', \<lparr>kind = BooleanField, nullable = True, fvalue = PBool False, fdefault = PNone\<rparr>)]\<rparr>],
        id_field := (id_field w)(''TrackLocation'' := Some (InstRef (length (heap w)) ''id''))\<rparr>)"
proof -
  have m: "mapE (convert_field (isoparse w) (location_kwargs i loc fname fsize)) (base_fields models_TrackLocation)
        = Inr [(''id'', i), (''location'', loc), (''directory'', PStr ''/music''),
               (''filename'', fname), (''filesize'', fsize), (''fs_deleted'', PBool False),
               (''needs_verification'', PBool False)]"
    by (simp add: location_kwargs_def models_TrackLocation_def fld_def)
  have c: "mid_column models_TrackLocation = Some ''id''"
    "map_of (base_fields models_TrackLocation) ''id'' = Some (fld IntegerField False PNone)"
    by (simp_all add: models_TrackLocation_def)
  show ?thesis
    unfolding Model_init_closed [OF c m]
    by (simp add: models_TrackLocation_def fld_def)
qed

lemma TrackLocation_init_bare:
  "Model_init models_TrackLocation [] w =
     (Inr (length (heap w)),
      w\<lparr>heap := heap w @ [\<lparr>icls = ''TrackLocation'', ifields = base_fields models_TrackLocation\<rparr>],
        id_field := (id_field w)(''TrackLocation'' := Some (InstRef (length (heap w)) ''id''))\<rparr>)"
proof -
  have m: "mapE (convert_field (isoparse w) []) (base_fields models_TrackLocation)
        = Inr [(''id'', PNone), (''location'', PNone), (''directory'', PNone),
               (''filename'', PNone), (''filesize'', PNone), (''fs_deleted'', PNone),
               (''needs_verification'', PNone)]"
    by (simp add: models_TrackLocation_def fld_def)
  have c: "mid_column models_TrackLocation = Some ''id''"
    "map_of (base_fields models_TrackLocation) ''id'' = Some (fld IntegerField False PNone)"
    by (simp_all add: models_TrackLocation_def)
  show ?thesis
    unfolding Model_init_closed [OF c m]
    by (simp add: models_TrackLocation_def fld_def)
qed

lemma with_a_eq:
  "with_a ac = (two_rows_world ac)
     \<lparr>heap := [location_instance (PInt 1) (PStr ''/music/a.mp3'') (PStr ''/music'') (PStr ''a.mp3'') (PInt 1000)
                 (PBool False) (PBool False)],
      id_field := initial_id_field(''TrackLocation'' := Some (InstRef 0 ''id''))\<rparr>"
  by (simp add: with_a_def TrackLocation_init two_rows_world_def empty_world_def location_instance_def)

lemma with_a_b_eq:
  "with_a_b ac = (two_rows_world ac)
     \<lparr>heap := [location_instance (PInt 1) (PStr ''/music/a.mp3'') (PStr ''/music'') (PStr ''a.mp3'') (PInt 1000)
                 (PBool False) (PBool False),
               location_instance (PInt 2) (PStr ''/music/b.mp3'') (PStr ''/music'') (PStr ''b.mp3'') (PInt 2000)
                 (PBool False) (PBool False)],
      id_field := initial_id_field(''TrackLocation'' := Some (InstRef 1 ''id''))\<rparr>"
  by (simp add: with_a_b_def with_a_eq TrackLocation_init two_rows_world_def empty_world_def location_instance_def)

lemma with_a_blank_eq:
  "with_a_blank ac = (two_rows_world ac)
     \<lparr>heap := [location_instance (PInt 1) (PStr ''/music/a.mp3'') (PStr ''/music'') (PStr ''a.mp3'') (PInt 1000)
                 (PBool False) (PBool False),
               location_instance PNone PNone PNone PNone PNone PNone PNone],
      id_field := initial_id_field(''TrackLocation'' := Some (InstRef 1 ''id''))\<rparr>"
  unfolding with_a_blank_def with_a_eq TrackLocation_init_bare
  by (simp add: two_rows_world_def empty_world_def location_instance_def models_TrackLocation_def fld_def)

lemma with_cue_eq:
  "with_cue ac = (empty_world ac)
     \<lparr>heap := [\<lparr>icls = ''Cue'', ifields =
          [(''id'', \<lparr>kind = IntegerField, nullable = False, fvalue = PInt 7, fdefault = PNone\<rparr>),
           (''track_id'', \<lparr>kind = ForeignKeyField ''Track'', nullable = False, fvalue = PInt 10,
                            fdefault = PNone\<rparr>),
           (''type'', \<lparr>kind = IntegerField, nullable = False, fvalue = PInt 0, fdefault = PInt 0\<rparr>),
           (''position'', \<lparr>kind = IntegerField, nullable = False, fvalue = PInt (- 1),
                            fdefault = PInt (- 1)\<rparr>),
           (''length'', \<lparr>kind = IntegerField, nullable = False, fvalue = PInt 0, fdefault = PInt 0\<rparr>),
           (''hotcue'', \<lparr>kind = IntegerField, nullable = False, fvalue = PInt (- 1),
                          fdefault = PInt (- 1)\<rparr>),
           (''label'', \<lparr>kind = TextField, nullable = False, fvalue = PStr [], fdefault = PStr []\<rparr>),
           (''color'', \<lparr>kind = IntegerField, nullable = False, fvalue = PInt 4294901760,
                         fdefault = PInt 4294901760\<rparr>)]\<rparr>],
      id_field := initial_id_field(''Cue'' := Some (InstRef 0 ''id''))\<rparr>"
proof -
  have m: "mapE (convert_field (isoparse (empty_world ac)) cue_kwargs) (base_fields models_Cue)
        = Inr cue_kwargs"
    by (simp add: cue_kwargs_def models_Cue_def fld_def)
  have c: "mid_column models_Cue = Some ''id''"
    "map_of (base_fields models_Cue) ''id'' = Some (fld IntegerField False PNone)"
    by (simp_all add: models_Cue_def)
  show ?thesis
    unfolding with_cue_def Model_init_closed [OF c m]
    by (simp add: models_Cue_def fld_def cue_kwargs_def empty_world_def)
qed

lemmas TL_worlds = with_a_eq with_a_b_eq with_a_blank_eq

subsection \<open>The pre-write check\<close>

lemma check_cases:
  "check f = Inr () \<or> check f = Inl (ValueError Bare) \<or> check f = Inl AttributeError"
  by (simp add: check_def split: option.splits)

lemma check_typed:
  "ftype (kind f) = Some t \<Longrightarrow>
     check f = (if (fvalue f = PNone \<and> nullable f) \<or> isinstance (fvalue f) t then Inr ()
                else Inl (ValueError Bare))"
  by (auto simp: check_def)

lemma check_foreign_key:
  "check \<lparr>kind = ForeignKeyField m, nullable = n, fvalue = v, fdefault = d\<rparr> = Inl AttributeError"
  by (simp add: check_def)

text \<open>
  C6. For a column descriptor whose class declares its native type, the pre-write check
  fails with a \<open>ValueError\<close> exactly when the value is neither null on a nullable column
  nor an instance of that type, and passes otherwise. For a foreign-key descriptor, whose
  class declares no type, the check raises \<open>AttributeError\<close> whatever the value is: so it
  does for null on a nullable column (the \<open>location\<close> column of \<open>Track\<close> as models.py
  declares it), where the check is to pass. For a \<open>Cue\<close> built with a value of the declared
  type in every column, \<open>_check\<close> raises that \<open>AttributeError\<close> at the foreign key
  \<open>track_id\<close>, and so does \<open>update\<close>, which leaves the state as it was.
\<close>

theorem C6_foreign_key_check:
  "(ftype (kind f) = Some t \<longrightarrow>
      (check f = Inl (ValueError Bare))
        = (\<not> ((fvalue f = PNone \<and> nullable f) \<or> isinstance (fvalue f) t))
      \<and> (check f = Inr ()) = ((fvalue f = PNone \<and> nullable f) \<or> isinstance (fvalue f) t))
   \<and> check \<lparr>kind = ForeignKeyField m, nullable = n, fvalue = v, fdefault = d\<rparr> = Inl AttributeError
   \<and> map_of (base_fields models_Track) ''location''
       = Some \<lparr>kind = ForeignKeyField ''TrackLocation'', nullable = True, fvalue = PNone,
               fdefault = PNone\<rparr>
   \<and> check \<lparr>kind = ForeignKeyField ''TrackLocation'', nullable = True, fvalue = PNone,
             fdefault = PNone\<rparr> = Inl AttributeError
   \<and> map (\<lambda>(n, f). (n, fvalue f)) (ifields (heap (with_cue ac) ! 0)) = cue_kwargs
   \<and> check_fields ''Cue'' (ifields (heap (with_cue ac) ! 0)) = Inl AttributeError
   \<and> Model_update models_Cue 0 (with_cue ac) = (Inl AttributeError, with_cue ac)"
proof -
  have a: "ftype (kind f) = Some t \<longrightarrow>
      (check f = Inl (ValueError Bare))
        = (\<not> ((fvalue f = PNone \<and> nullable f) \<or> isinstance (fvalue f) t))
      \<and> (check f = Inr ()) = ((fvalue f = PNone \<and> nullable f) \<or> isinstance (fvalue f) t)"
    by (simp add: check_typed)
  have b: "map_of (base_fields models_Track) ''location''
       = Some \<lparr>kind = ForeignKeyField ''TrackLocation'', nullable = True, fvalue = PNone,
               fdefault = PNone\<rparr>"
    by (simp add: models_Track_def fld_def)
  have c: "map (\<lambda>(n, f). (n, fvalue f)) (ifields (heap (with_cue ac) ! 0)) = cue_kwargs"
    by (simp add: with_cue_eq cue_kwargs_def)
  have d: "check_fields ''Cue'' (ifields (heap (with_cue ac) ! 0)) = Inl AttributeError"
    by (simp add: with_cue_eq check_def)
  have e: "get_id models_Cue 0 (with_cue ac) = Inr (PInt 7)"
    by (simp add: with_cue_eq get_id_def models_Cue_def)
  have g: "cname models_Cue = ''Cue''"
    by (simp add: models_Cue_def)
  have u: "Model_update models_Cue 0 (with_cue ac) = (Inl AttributeError, with_cue ac)"
    by (simp add: Model_update_def e d g)
  from a b c d u show ?thesis
    by (simp add: check_foreign_key)
qed

theorem C6_foreign_key_check_witness:
  "map_of (base_fields models_TrackLocation) ''filesize''
     = Some \<lparr>kind = IntegerField, nullable = True, fvalue = PNone, fdefault = PNone\<rparr>
   \<and> ftype IntegerField = Some TInt
   \<and> check \<lparr>kind = IntegerField, nullable = True, fvalue = PNone, fdefault = PNone\<rparr> = Inr ()
   \<and> check \<lparr>kind = IntegerField, nullable = True, fvalue = PInt 1000, fdefault = PNone\<rparr> = Inr ()
   \<and> check \<lparr>kind = IntegerField, nullable = True, fvalue = PStr ''big'', fdefault = PNone\<rparr>
       = Inl (ValueError Bare)
   \<and> check \<lparr>kind = IntegerField, nullable = False, fvalue = PNone, fdefault = PNone\<rparr>
       = Inl (ValueError Bare)"
proof -
  let ?nul = "\<lparr>kind = IntegerField, nullable = True, fvalue = PNone, fdefault = PNone\<rparr>"
  let ?int = "\<lparr>kind = IntegerField, nullable = True, fvalue = PInt 1000, fdefault = PNone\<rparr>"
  let ?bad = "\<lparr>kind = IntegerField, nullable = True, fvalue = PStr ''big'', fdefault = PNone\<rparr>"
  let ?req = "\<lparr>kind = IntegerField, nullable = False, fvalue = PNone, fdefault = PNone\<rparr>"
  have 0: "map_of (base_fields models_TrackLocation) ''filesize'' = Some ?nul"
    by (simp add: models_TrackLocation_def fld_def)
  from C6_foreign_key_check [of ?nul TInt] have 1: "check ?nul = Inr ()" by simp
  from C6_foreign_key_check [of ?int TInt] have 2: "check ?int = Inr ()" by simp
  from C6_foreign_key_check [of ?bad TInt] have 3: "check ?bad = Inl (ValueError Bare)" by simp
  from C6_foreign_key_check [of ?req TInt] have 4: "check ?req = Inl (ValueError Bare)" by simp
  from 0 1 2 3 4 show ?thesis by simp
qed

subsection \<open>Instances of one model class\<close>

text \<open>
  C9. Two \<open>TrackLocation\<close> instances of models.py, \<open>a\<close> with id 1 and then \<open>b\<close> with id 2.
  Each owns its fields (reading \<open>a.id\<close> gives 1 before and after \<open>b\<close> is built), but
  \<open>get_id\<close> reads the field that the class-level \<open>_meta.id_field\<close> refers to, and every
  construction redirects that reference: \<open>a.get_id()\<close> is 1 while \<open>a\<close> is alone, 2 once
  \<open>b\<close> exists, and 7 after \<open>b.id = 7\<close>. With a blank instance built last, \<open>a.delete()\<close>
  raises ``id is None''; and \<open>TrackLocation.bulk_delete(a)\<close>, with statements committed,
  removes row 2 and keeps row 1.
\<close>

theorem C9_shared_identity_field:
  "Model_getattr 0 ''id'' (with_a ac) = Inr (PInt 1)
   \<and> get_id models_TrackLocation 0 (with_a ac) = Inr (PInt 1)
   \<and> Model_getattr 0 ''id'' (with_a_b ac) = Inr (PInt 1)
   \<and> get_id models_TrackLocation 0 (with_a_b ac) = Inr (PInt 2)
   \<and> get_id models_TrackLocation 0 (Model_setattr 1 ''id'' (PInt 7) (with_a_b ac)) = Inr (PInt 7)
   \<and> fst (Model_delete models_TrackLocation 0 (with_a_blank ac)) = Inl (ValueError IdIsNone)
   \<and> map (\<lambda>r. row_get r ''id'')
        (tables (snd (Model_bulk_delete models_TrackLocation [0] (with_a_b True))) ''track_locations'')
       = [PInt 1]"
  by (simp add: TL_worlds location_instance_def Model_getattr_def get_id_def Model_setattr_def set_field_def Model_delete_def
      Model_bulk_delete_def required_def models_TrackLocation_def commit_table_def two_rows_world_def
      empty_world_def location_row_def mkrow_def schemas_TrackLocation_def row_get_def)

subsection \<open>Updating a row\<close>

lemma Model_update_raises: "\<exists>e. Model_update cls self w = (Inl e, w)"
  by (auto simp: Model_update_def bindE_def split: sum.splits)

text \<open>
  C5. \<open>Model.update\<close> of db.py on instance \<open>a\<close>, whose id is 1: after a blank instance has
  been built it raises ``id is None'' (the precondition looks at the shared identity
  field). With \<open>a\<close> alone, the precondition and the check of every column pass, and the
  call raises \<open>TypeError\<close> when it formats the statement: nothing is written. For every
  class, instance and state, \<open>Model.update\<close> raises and leaves the state as it was.
  \<open>BaseSchema.update\<close> of schemas.py on a row whose id is \<open>None\<close> raises nothing.
\<close>

theorem C5_update_never_writes:
  "Model_getattr 0 ''id'' (with_a_blank ac) = Inr (PInt 1)
   \<and> Model_update models_TrackLocation 0 (with_a_blank ac) = (Inl (ValueError IdIsNone), with_a_blank ac)
   \<and> get_id models_TrackLocation 0 (with_a ac) = Inr (PInt 1)
   \<and> check_fields ''TrackLocation'' (ifields (heap (with_a ac) ! 0)) = Inr ()
   \<and> Model_update models_TrackLocation 0 (with_a ac) = (Inl TypeError, with_a ac)
   \<and> (\<exists>e. Model_update cls self w = (Inl e, w))
   \<and> fst (BaseSchema_update schemas_TrackLocation
             (setattr ''id'' PNone (location_row 1 ''/music/a.mp3'' ''/music'' ''a.mp3''))
             (two_rows_world ac)) = Inr ()"
proof -
  have 1: "Model_getattr 0 ''id'' (with_a_blank ac) = Inr (PInt 1)"
    by (simp add: TL_worlds location_instance_def Model_getattr_def)
  have 2: "Model_update models_TrackLocation 0 (with_a_blank ac)
             = (Inl (ValueError IdIsNone), with_a_blank ac)"
    by (simp add: TL_worlds location_instance_def get_id_def Model_update_def models_TrackLocation_def)
  have 3: "get_id models_TrackLocation 0 (with_a ac) = Inr (PInt 1)"
    by (simp add: TL_worlds location_instance_def get_id_def models_TrackLocation_def)
  have 4: "check_fields ''TrackLocation'' (ifields (heap (with_a ac) ! 0)) = Inr ()"
    by (simp add: TL_worlds location_instance_def check_def)
  have n: "cname models_TrackLocation = ''TrackLocation''"
    "mid_column models_TrackLocation = Some ''id''"
    "mtable models_TrackLocation = Some ''track_locations''"
    by (simp_all add: models_TrackLocation_def)
  have 5: "Model_update models_TrackLocation 0 (with_a ac) = (Inl TypeError, with_a ac)"
    unfolding Model_update_def 3 n 4
    by (simp add: TL_worlds location_instance_def Model_get_equals_expr_def get_equals_expr_def
        required_def)
  have 6: "fst (BaseSchema_update schemas_TrackLocation
             (setattr ''id'' PNone (location_row 1 ''/music/a.mp3'' ''/music'' ''a.mp3''))
             (two_rows_world ac)) = Inr ()"
    by (simp add: BaseSchema_update_def schemas_TrackLocation_def location_row_def mkrow_def
        getattr_def quoted_text_plain quote_def str_int_def str_nat.simps digit_char_def
        bindS_def split: prod.splits)
  from 1 2 3 4 5 6 Model_update_raises [of cls self w] show ?thesis by simp
qed

subsection \<open>Deleting one row\<close>

lemma BaseSchema_delete_tables:
  "t \<noteq> table cls \<Longrightarrow> tables (snd (BaseSchema_delete cls self w)) t = tables w t"
  by (auto simp: BaseSchema_delete_def bindS_def commit_table_def
      split: option.splits sum.splits prod.splits)

lemma Model_delete_tables:
  "mtable cls \<noteq> Some t \<Longrightarrow> tables (snd (Model_delete cls self w)) t = tables w t"
  by (auto simp: Model_delete_def bindE_def required_def bindS_def commit_table_def
      split: sum.splits option.splits prod.splits if_splits)

lemma probe_dirs_tables [simp]: "tables (snd (probe_dirs ds dirs w)) = tables w"
proof (induction ds arbitrary: dirs w)
  case Nil
  show ?case by simp
next
  case (Cons d ds)
  have ih: "tables (snd (probe_dirs ds dd (w\<lparr>listed := listed w @ [d]\<rparr>))) = tables w" for dd
    using Cons [of dd "w\<lparr>listed := listed w @ [d]\<rparr>"] by simp
  show ?case
    by (simp add: os_listdir_def ih split: sum.splits error.splits)
qed

lemma schemas_list_orphans_tables [simp]: "tables (snd (schemas_list_orphans w)) = tables w"
proof -
  have "tables (snd (bindS (probe_dirs ds Map.empty w) (\<lambda>dirs w2. (collect_orphans dirs ls, w2)))) = tables w"
    for ds ls
    using probe_dirs_tables [of ds Map.empty w]
    by (cases "probe_dirs ds Map.empty w") (auto simp: bindS_def split: sum.splits)
  then show ?thesis
    by (auto simp: schemas_list_orphans_def BaseSchema_list_eq split: sum.splits)
qed

lemma delete_each_tables:
  "t \<noteq> ''track_locations'' \<Longrightarrow> tables (snd (delete_each ls w)) t = tables w t"
proof (induction ls arbitrary: w)
  case Nil
  show ?case by simp
next
  case (Cons l ls)
  have d: "tables (snd (BaseSchema_delete schemas_TrackLocation l w)) t = tables w t"
    using Cons.prems by (simp add: BaseSchema_delete_tables schemas_TrackLocation_def)
  show ?case
    using d Cons.IH [OF Cons.prems]
    by (cases "BaseSchema_delete schemas_TrackLocation l w")
       (auto simp: bindS_def split: sum.splits pyval.splits)
qed

text \<open>
  C3. \<open>delete()\<close> runs no cascade. \<open>BaseSchema.delete\<close> of schemas.py, which
  \<open>delete_orphan_locations\<close> calls on each orphan Location, leaves every table other than
  \<open>track_locations\<close> as it was; \<open>Model.delete\<close> of db.py, which \<open>Track\<close> inherits, leaves
  every table other than \<open>library\<close> as it was. With the recorded file gone from disk and
  statements committed, purging the orphans removes Location 1 and keeps Track 10, which
  still names Location 1.
\<close>

theorem C3_delete_no_cascade:
  "(t \<noteq> ''track_locations'' \<longrightarrow>
      tables (snd (BaseSchema_delete schemas_TrackLocation self w)) t = tables w t
      \<and> tables (snd (delete_orphan_locations w)) t = tables w t)
   \<and> (t \<noteq> ''library'' \<longrightarrow> tables (snd (Model_delete models_Track obj w)) t = tables w t)"
proof -
  have a: "tables (snd (delete_orphan_locations w)) t = tables w t" if t: "t \<noteq> ''track_locations''"
  proof -
    have b: "tables (snd (schemas_list_orphans (backup_db w))) t = tables w t"
      by (simp add: backup_db_def)
    show ?thesis
      unfolding delete_orphan_locations_def
      apply (rule bindS_tables [OF b])
      apply (rule bindS_tables)
       apply (simp add: delete_each_tables [OF t])
      apply simp
      done
  qed
  show ?thesis
    using a by (simp add: BaseSchema_delete_tables Model_delete_tables schemas_TrackLocation_def
        models_Track_def)
qed

theorem C3_delete_no_cascade_witness:
  "''library'' \<noteq> ''track_locations''
   \<and> tables (snd (delete_orphan_locations (orphan_world True))) ''track_locations'' = []
   \<and> tables (snd (delete_orphan_locations (orphan_world True))) ''library'' = [track_row 10 1]
   \<and> row_get (track_row 10 1) ''location'' = PInt 1
   \<and> ''cues'' \<noteq> ''library''
   \<and> tables (snd (Model_delete models_Track 0 (orphan_world True))) ''cues''
       = tables (orphan_world True) ''cues''"
proof -
  have 1: "tables (snd (delete_orphan_locations (orphan_world True))) ''track_locations'' = []"
    by (simp add: delete_orphan_locations_def schemas_list_orphans_def BaseSchema_list_eq
        backup_db_def orphan_world_def library_world_def library_tables_def empty_world_def
        location_row_def mkrow_def schemas_TrackLocation_def row_get_def getattr_def
        os_path_dirname_def slash_head_def rstrip_slash_def os_listdir_def
        BaseSchema_delete_def commit_table_def)
  have 2: "tables (orphan_world True) ''library'' = [track_row 10 1]"
    by (simp add: orphan_world_def library_world_def library_tables_def)
  have 3: "row_get (track_row 10 1) ''location'' = PInt 1"
    by (simp add: track_row_def mkrow_def schemas_Track_def row_get_def)
  from 1 2 3 C3_delete_no_cascade [of "''library''" "[]" "orphan_world True" 0]
    C3_delete_no_cascade [of "''cues''" "[]" "orphan_world True" 0]
  show ?thesis by simp
qed

subsection \<open>Files that the catalog does not record\<close>

lemma is_file_stdout [simp]: "is_file (w\<lparr>stdout := x\<rparr>) p = is_file w p"
  by (simp add: is_file_def)

lemma scan_paths_eq:
  "scan_paths locations paths w =
     w\<lparr>stdout := stdout w @ map Line
          (filter (\<lambda>p. is_file w p \<and> is_audio (guess_type w p) \<and> PStr (resolve w p) \<notin> set locations)
             paths)\<rparr>"
proof (induction paths arbitrary: w)
  case Nil
  show ?case by simp
next
  case (Cons p ps)
  show ?case by (simp add: Cons)
qed

lemma getattr_fetched:
  "c \<in> set cols \<Longrightarrow> getattr (zip cols (map (row_get r) cols)) c = Inr (row_get r c)"
  by (simp add: getattr_def map_of_zip_map)

lemma fetched_attr:
  "c \<in> set cols \<Longrightarrow>
     mapE (\<lambda>l. getattr l c) (map (\<lambda>r. zip cols (map (row_get r) cols)) rs)
       = Inr (map (\<lambda>r. row_get r c) rs)"
  by (induction rs) (simp_all add: getattr_fetched)

lemma TrackLocation_columns:
  "table schemas_TrackLocation = ''track_locations''"
  "''id'' \<in> set (columns schemas_TrackLocation)"
  "''location'' \<in> set (columns schemas_TrackLocation)"
  "''filename'' \<in> set (columns schemas_TrackLocation)"
  "''directory'' \<in> set (columns schemas_TrackLocation)"
  by (simp_all add: schemas_TrackLocation_def)

lemma list_orphan_files_eq:
  "list_orphan_files source recursive w =
     (Inr (), w\<lparr>stdout := stdout w @ map Line
        (filter (\<lambda>p. PStr (resolve w p) \<notin> set (recorded_locations w))
           (candidate_paths w source recursive))\<rparr>)"
  by (simp add: list_orphan_files_def BaseSchema_list_eq fetched_attr TrackLocation_columns
      scan_paths_eq candidate_paths_def recorded_locations_def conj_commute conj_left_commute
      cong: conj_cong)

lemma relative_world_facts:
  "recorded_locations relative_world = [PStr ''music/a.mp3'']"
  "candidate_paths relative_world ''/home/u/music'' False = [''/home/u/music/a.mp3'']"
  "stdout relative_world = []"
  "resolve relative_world = (\<lambda>p. if p = ''music/a.mp3'' then ''/home/u/music/a.mp3'' else p)"
  by (simp_all add: recorded_locations_def candidate_paths_def relative_world_def empty_world_def
      location_row_columns is_file_def is_audio_def resolve_def fun_eq_iff)

text \<open>
  C8, as stated, in a catalog that records \<open>/home/u/music/a.mp3\<close> by the relative path
  \<open>music/a.mp3\<close>: the recorded location resolves to the very path of the file, and the
  scan as designed reports nothing, yet \<open>list_orphan_files\<close> reports the file.
\<close>

theorem C8_counterexample:
  "stdout (snd (list_orphan_files ''/home/u/music'' False relative_world))
     = [Line ''/home/u/music/a.mp3'']
   \<and> recorded_locations relative_world = [PStr ''music/a.mp3'']
   \<and> resolve relative_world ''music/a.mp3'' = resolve relative_world ''/home/u/music/a.mp3''
   \<and> orphan_files_as_designed relative_world ''/home/u/music'' False = []"
  by (simp add: list_orphan_files_eq orphan_files_as_designed_def relative_world_facts)

text \<open>
  C8, amended. The filesystem-side scan reports, in the order of the walk, exactly the
  regular files under the given root (recursively if and only if the flag is set) whose
  guessed content type is audio and whose resolved absolute path is not among the
  catalog's recorded locations as they are stored: the recorded locations are compared
  verbatim, not resolved. The scan returns normally and changes nothing but the output.
\<close>

theorem C8_verbatim_locations:
  "fst (list_orphan_files source recursive w) = Inr ()
   \<and> stdout (snd (list_orphan_files source recursive w)) =
       stdout w @ map Line
         (filter (\<lambda>p. is_file w p \<and> is_audio (guess_type w p)
                      \<and> PStr (resolve w p) \<notin> set (recorded_locations w))
            (glob w source (if recursive then ''**/*'' else ''*'')))
   \<and> tables (snd (list_orphan_files source recursive w)) = tables w
   \<and> nodes (snd (list_orphan_files source recursive w)) = nodes w"
  by (simp add: list_orphan_files_eq candidate_paths_def conj_commute conj_left_commute
      cong: conj_cong)

theorem C8_verbatim_locations_witness:
  "stdout (snd (list_orphan_files ''/home/u/music'' False
                  (relative_world\<lparr>tables := (\<lambda>t. [])(''track_locations'' :=
                      [location_row 1 ''/home/u/music/a.mp3'' ''/home/u/music'' ''a.mp3''])\<rparr>))) = []
   \<and> stdout (snd (list_orphan_files ''/home/u/music'' True
                    (relative_world\<lparr>tables := (\<lambda>t. [])\<rparr>))) = [Line ''/home/u/music/a.mp3'']"
  using C8_verbatim_locations [of "''/home/u/music''" False
      "relative_world\<lparr>tables := (\<lambda>t. [])(''track_locations'' :=
                      [location_row 1 ''/home/u/music/a.mp3'' ''/home/u/music'' ''a.mp3''])\<rparr>"]
    C8_verbatim_locations [of "''/home/u/music''" True "relative_world\<lparr>tables := (\<lambda>t. [])\<rparr>"]
  by (simp add: recorded_locations_def relative_world_def empty_world_def
      location_row_columns is_file_def is_audio_def resolve_def)

subsection \<open>Rows whose file is gone\<close>

lemma current_listing_listed [simp]: "current_listing (w\<lparr>listed := x\<rparr>) d = current_listing w d"
  by (simp add: current_listing_def)

lemma listable_listed [simp]: "listable (w\<lparr>listed := x\<rparr>) d = listable w d"
  by (simp add: listable_def)









subsection \<open>Moving files\<close>

lemma commit_table_other [simp]:
  "nodes (commit_table t rs w) = nodes w" "realpath (commit_table t rs w) = realpath w"
  "direntry (commit_table t rs w) = direntry w" "autocommit (commit_table t rs w) = autocommit w"
  "stderr (commit_table t rs w) = stderr w" "stdout (commit_table t rs w) = stdout w"
  by (simp_all add: commit_table_def)

lemma execute_uncommitted: "\<not> autocommit w \<Longrightarrow> snd (execute s w) = w"
  by (cases s) (auto simp: commit_table_def split: sum.splits prod.splits)

lemma BaseSchema_update_uncommitted:
  "\<not> autocommit w \<Longrightarrow> snd (BaseSchema_update cls self w) = w"
proof -
  assume a: "\<not> autocommit w"
  have "snd (bindS (execute s w) (\<lambda>r w'. (Inr (), w'))) = w" for s
    using execute_uncommitted [OF a, of s]
    by (cases "execute s w") (auto simp: bindS_def split: sum.splits)
  then show ?thesis
    by (simp add: BaseSchema_update_def del: execute.simps split: option.splits sum.splits)
qed

lemma update_db_loop_uncommitted:
  "\<not> autocommit w \<Longrightarrow> snd (snd (update_db_loop destpath is b ls w)) = w"
proof (induction "is" arbitrary: b ls)
  case Nil
  show ?case by simp
next
  case (Cons i rest)
  let ?l = "setattr ''directory'' (PStr (path_parent destpath))
              (setattr ''location'' (PStr destpath) (ls ! i))"
  from BaseSchema_update_uncommitted [OF Cons.prems, of schemas_TrackLocation ?l]
  obtain r where u: "BaseSchema_update schemas_TrackLocation ?l w = (r, w)"
    by (cases "BaseSchema_update schemas_TrackLocation ?l w") auto
  show ?case
    using u Cons.IH [OF Cons.prems] by (cases r) (auto simp: Let_def)
qed

lemma update_db_uncommitted:
  "\<not> autocommit w \<Longrightarrow> snd (snd (update_db srcpath destpath ls w)) = w"
  by (auto simp: update_db_def update_db_loop_uncommitted split: sum.splits)

lemma rename_catalog [simp]:
  "tables (snd (rename a b w)) = tables w" "autocommit (snd (rename a b w)) = autocommit w"
  by (auto simp: rename_def move_entry_def split: option.splits node.splits)

lemma move_source_uncommitted:
  assumes "\<not> autocommit w"
  shows "tables (snd (snd (move_source destdir source ls w))) = tables w
         \<and> \<not> autocommit (snd (snd (move_source destdir source ls w)))"
proof (cases "is_file w source")
  case False
  with assms show ?thesis by (simp add: move_source_def)
next
  case True
  let ?d = "joinpath destdir (path_name source)"
  obtain r w1 where rn: "rename source ?d w = (r, w1)" by (cases "rename source ?d w")
  from rename_catalog [of source ?d w] rn assms
  have w1: "tables w1 = tables w" "\<not> autocommit w1" by simp_all
  show ?thesis
  proof (cases r)
    case (Inl e)
    with True rn w1 show ?thesis by (simp add: move_source_def Let_def)
  next
    case (Inr u)
    obtain q ls2 w2 where ud: "update_db source ?d ls w1 = (q, ls2, w2)"
      by (cases "update_db source ?d ls w1")
    from update_db_uncommitted [OF w1(2), of source ?d ls] ud have w2: "w2 = w1" by simp
    show ?thesis
    proof (cases q)
      case (Inl e)
      let ?w = "w1\<lparr>stderr := stderr w1 @ [UpdateFailed source e]\<rparr>"
      obtain r3 w3 where rb: "rename ?d source ?w = (r3, w3)" by (cases "rename ?d source ?w")
      from rename_catalog [of ?d source ?w] rb w1
      have "tables w3 = tables w" "\<not> autocommit w3" by simp_all
      with True rn \<open>r = Inr u\<close> ud Inl w2 rb show ?thesis
        by (cases r3) (simp_all add: move_source_def Let_def)
    next
      case (Inr b)
      with True rn \<open>r = Inr u\<close> ud w2 w1 show ?thesis by (simp add: move_source_def Let_def)
    qed
  qed
qed

lemma move_loop_uncommitted:
  "\<not> autocommit w \<Longrightarrow> tables (snd (snd (move_loop destdir sources ls w))) = tables w"
proof (induction sources arbitrary: ls w)
  case Nil
  show ?case by simp
next
  case (Cons s rest)
  obtain r ls1 w1 where m: "move_source destdir s ls w = (r, ls1, w1)"
    by (cases "move_source destdir s ls w")
  from move_source_uncommitted [OF Cons.prems, of destdir s ls] m
  have w1: "tables w1 = tables w" "\<not> autocommit w1" by simp_all
  from Cons.IH [OF w1(2), of ls1] w1(1) m show ?case by (cases r) simp_all
qed

lemma move_files_uncommitted:
  "\<not> autocommit w \<Longrightarrow> tables (snd (move_files sources destination w)) = tables w"
proof -
  assume a: "\<not> autocommit w"
  have "tables (snd (case move_loop d sources ls w of (r, ls', w2) \<Rightarrow> (r, w2))) = tables w" for d ls
    using move_loop_uncommitted [OF a, of d sources ls]
    by (cases "move_loop d sources ls w") simp
  then show ?thesis
    by (simp add: move_files_def BaseSchema_list_eq Let_def)
qed

lemma path_facts:
  "path_name ''/x/f.mp3'' = ''f.mp3''" "path_name ''/y/f.mp3'' = ''f.mp3''"
  "path_name ''/music/a.mp3'' = ''a.mp3''" "path_name ''/links/a.mp3'' = ''a.mp3''"
  "joinpath ''/dest'' ''a.mp3'' = ''/dest/a.mp3''"
  "joinpath eighties ''f.mp3'' = eighties @ ''/f.mp3''"
  "path_parent ''/dest/a.mp3'' = ''/dest''"
  by (simp_all add: path_name_def joinpath_def eighties_def path_parent_def slash_head_def
      rstrip_slash_def)

lemma fetched_row:
  "zip (columns schemas_TrackLocation) (map (row_get (location_row i l d f)) (columns schemas_TrackLocation))
     = location_row i l d f"
  by (simp add: location_row_def mkrow_def schemas_TrackLocation_def row_get_def)

lemma location_attrs:
  "getattr (location_row i l d f) ''id'' = Inr (PInt i)"
  "getattr (location_row i l d f) ''location'' = Inr (PStr l)"
  "getattr (location_row i l d f) ''filename'' = Inr (PStr f)"
  "getattr (location_row i l d f) ''directory'' = Inr (PStr d)"
  "getattr (location_row i l d f) ''filesize'' = Inr (PInt 1000)"
  "getattr (location_row i l d f) ''fs_deleted'' = Inr (PInt 0)"
  "getattr (location_row i l d f) ''needs_verification'' = Inr (PInt 0)"
  by (simp_all add: getattr_def location_row_def mkrow_def schemas_TrackLocation_def)

lemma map_of_setattr: "map_of (setattr a v l) b = (if b = a then Some v else map_of l b)"
  by (induction l) auto

lemma getattr_setattr: "getattr (setattr a v l) b = (if b = a then Inr v else getattr l b)"
  by (simp add: getattr_def map_of_setattr)

lemma music_facts:
  "tables (music_world ac) ''track_locations'' = [location_row 1 ''/music/a.mp3'' ''/music'' ''a.mp3'']"
  "realpath (music_world ac) = (\<lambda>ns p. p)" "direntry (music_world ac) = (\<lambda>ns p. p)"
  "autocommit (music_world ac) = ac" "stdout (music_world ac) = []" "stderr (music_world ac) = []"
  "nodes (music_world ac) ''/music/a.mp3'' = Some (File ''A'')"
  "nodes (music_world ac) ''/dest/a.mp3'' = None"
  "nodes (music_world ac) ''/dest'' = Some Dir"
  by (simp_all add: music_world_def library_world_def library_tables_def empty_world_def)

lemma moved_row_update:
  "quote \<notin> set l \<Longrightarrow> quote \<notin> set d \<Longrightarrow> quote \<notin> set f \<Longrightarrow> \<not> autocommit w \<Longrightarrow>
     BaseSchema_update schemas_TrackLocation
       (setattr ''directory'' (PStr d) (setattr ''location'' (PStr l) (location_row i l' d' f))) w
     = (Inr (), w)"
  by (simp add: BaseSchema_update_def schemas_TrackLocation_def getattr_setattr location_attrs
      quoted_text_plain commit_table_def)

text \<open>
  C2. The catalog row of a moved file is not updated. In the example library, with the
  connection of the source (nothing is committed), \<open>move_files\<close> of the recorded file
  \<open>/music/a.mp3\<close> to \<open>/dest\<close> returns normally and reports that the catalog was updated:
  the file is at \<open>/dest/a.mp3\<close> and no longer at \<open>/music/a.mp3\<close>, and the catalog is what it
  was, its one Location row still recording \<open>/music/a.mp3\<close> in \<open>/music\<close>. For every list
  of sources, every destination and every state in which statements are not committed,
  the catalog after \<open>move_files\<close> is the catalog before it.
\<close>

theorem C2_move_not_recorded:
  "fst (move_files [''/music/a.mp3''] ''/dest'' (music_world False)) = Inr ()
   \<and> stdout (snd (move_files [''/music/a.mp3''] ''/dest'' (music_world False)))
       = [MovedUpdated ''/music/a.mp3'' ''/dest/a.mp3'']
   \<and> stderr (snd (move_files [''/music/a.mp3''] ''/dest'' (music_world False))) = []
   \<and> nodes (snd (move_files [''/music/a.mp3''] ''/dest'' (music_world False))) ''/dest/a.mp3''
       = Some (File ''A'')
   \<and> nodes (snd (move_files [''/music/a.mp3''] ''/dest'' (music_world False))) ''/music/a.mp3''
       = None
   \<and> tables (snd (move_files [''/music/a.mp3''] ''/dest'' (music_world False))) ''track_locations''
       = [location_row 1 ''/music/a.mp3'' ''/music'' ''a.mp3'']
   \<and> (\<not> autocommit w \<longrightarrow> tables (snd (move_files sources destination w)) = tables w)"
proof -
  have q: "quote \<notin> set ''/dest/a.mp3''" "quote \<notin> set ''/dest''" "quote \<notin> set ''a.mp3''"
    by (simp_all add: quote_def)
  have e: "move_files [''/music/a.mp3''] ''/dest'' (music_world False)
     = (Inr (), (music_world False)
          \<lparr>nodes := (nodes (music_world False))
                      (''/music/a.mp3'' := None, ''/dest/a.mp3'' := Some (File ''A'')),
           stdout := [MovedUpdated ''/music/a.mp3'' ''/dest/a.mp3'']\<rparr>)"
    by (simp add: move_files_def BaseSchema_list_eq TrackLocation_columns music_facts fetched_row
        is_dir_def is_file_def resolve_def entry_def move_source_def path_facts rename_def
        move_entry_def update_db_def location_attrs matching_def moved_row_update [OF q] Let_def)
  show ?thesis
    unfolding e by (simp add: music_facts move_files_uncommitted)
qed

theorem C2_move_not_recorded_witness:
  "\<not> autocommit (clash_world False)
   \<and> tables (snd (move_files [''/x/f.mp3'', ''/y/f.mp3''] eighties (clash_world False)))
       = tables (clash_world False)"
proof -
  have a: "\<not> autocommit (clash_world False)"
    by (simp add: clash_world_def empty_world_def)
  from C2_move_not_recorded [of "clash_world False" "[''/x/f.mp3'', ''/y/f.mp3'']" eighties] a
  show ?thesis by simp
qed

text \<open>
  A source that is a symbolic link to the recorded file: the link itself is renamed, the
  file stays where it is, and \<open>srcpath.resolve()\<close>, called after the rename, no longer
  leads to the file, so that no row is matched and the move is reported as one of an
  untracked file.
\<close>

lemma linked_facts:
  "tables (linked_world ac) ''track_locations'' = [location_row 1 ''/music/a.mp3'' ''/music'' ''a.mp3'']"
  "realpath (linked_world ac) = (\<lambda>ns p. case ns p of Some (Link t) \<Rightarrow> t | _ \<Rightarrow> p)"
  "direntry (linked_world ac) = (\<lambda>ns p. p)"
  "stdout (linked_world ac) = []" "stderr (linked_world ac) = []"
  "nodes (linked_world ac) ''/music/a.mp3'' = Some (File ''A'')"
  "nodes (linked_world ac) ''/links/a.mp3'' = Some (Link ''/music/a.mp3'')"
  "nodes (linked_world ac) ''/dest/a.mp3'' = None"
  "nodes (linked_world ac) ''/dest'' = Some Dir"
  by (simp_all add: linked_world_def music_world_def library_world_def library_tables_def
      empty_world_def)

lemma move_symbolic_link_example:
  "is_file (linked_world ac) ''/links/a.mp3''
   \<and> resolve (linked_world ac) ''/links/a.mp3'' = ''/music/a.mp3''
   \<and> move_files [''/links/a.mp3''] ''/dest'' (linked_world ac)
       = (Inr (), (linked_world ac)
            \<lparr>nodes := (nodes (linked_world ac))
                        (''/links/a.mp3'' := None, ''/dest/a.mp3'' := Some (Link ''/music/a.mp3'')),
             stdout := [MovedNoEntry ''/links/a.mp3'' ''/dest/a.mp3'']\<rparr>)"
  by (simp add: move_files_def BaseSchema_list_eq TrackLocation_columns linked_facts fetched_row
      is_dir_def is_file_def resolve_def entry_def move_source_def path_facts rename_def
      move_entry_def update_db_def location_attrs matching_def Let_def)

text \<open>
  Two sources with the same base name, the second of which fails in the catalog: the
  second rename replaces the first file at the destination, the statement is rejected,
  and the rename is reversed. The call returns normally, and the first file is neither at
  the destination nor at its original path.
\<close>

lemma clash_facts:
  "tables (clash_world ac) ''track_locations'' = [location_row 2 ''/y/f.mp3'' ''/y'' ''f.mp3'']"
  "realpath (clash_world ac) = (\<lambda>ns p. p)" "direntry (clash_world ac) = (\<lambda>ns p. p)"
  "sqlite (clash_world ac) = (\<lambda>s T. Inl OperationalError)"
  "stderr (clash_world ac) = []" "stdout (clash_world ac) = []"
  "nodes (clash_world ac) ''/x/f.mp3'' = Some (File ''A'')"
  "nodes (clash_world ac) ''/y/f.mp3'' = Some (File ''B'')"
  "nodes (clash_world ac) (eighties @ ''/f.mp3'') = None"
  "nodes (clash_world ac) eighties = Some Dir"
  by (simp_all add: clash_world_def empty_world_def eighties_def)

lemma eighties_other [simp]:
  "''/y'' \<noteq> eighties" "''/x'' \<noteq> eighties" "eighties \<noteq> ''/y''" "eighties \<noteq> ''/x''"
  by (simp_all add: eighties_def)

lemma eighties_text:
  "quoted_raw (PStr (eighties @ ''/f.mp3'')) = TokText ([quote] @ eighties @ ''/f.mp3'' @ [quote])"
  by (simp add: quoted_text_def eighties_def quote_def)

lemma eighties_update_fails:
  "sqlite w = (\<lambda>s T. Inl OperationalError) \<Longrightarrow>
     BaseSchema_update schemas_TrackLocation
       (setattr ''directory'' (PStr d) (setattr ''location'' (PStr (eighties @ ''/f.mp3''))
          (location_row i l d' f))) w
     = (Inl OperationalError, w)"
  by (simp add: BaseSchema_update_def schemas_TrackLocation_def getattr_setattr location_attrs
      eighties_text del: quoted_raw.simps)

lemma move_rollback_example:
  "nodes (snd (move_files [''/x/f.mp3''] eighties (clash_world ac))) (eighties @ ''/f.mp3'')
     = Some (File ''A'')
   \<and> stdout (snd (move_files [''/x/f.mp3''] eighties (clash_world ac)))
       = [MovedNoEntry ''/x/f.mp3'' (eighties @ ''/f.mp3'')]
   \<and> fst (move_files [''/x/f.mp3'', ''/y/f.mp3''] eighties (clash_world ac)) = Inr ()
   \<and> stderr (snd (move_files [''/x/f.mp3'', ''/y/f.mp3''] eighties (clash_world ac)))
       = [UpdateFailed ''/y/f.mp3'' OperationalError]
   \<and> nodes (snd (move_files [''/x/f.mp3'', ''/y/f.mp3''] eighties (clash_world ac)))
         (eighties @ ''/f.mp3'') = None
   \<and> nodes (snd (move_files [''/x/f.mp3'', ''/y/f.mp3''] eighties (clash_world ac))) ''/x/f.mp3'' = None
   \<and> nodes (snd (move_files [''/x/f.mp3'', ''/y/f.mp3''] eighties (clash_world ac))) ''/y/f.mp3''
       = Some (File ''B'')"
  by (simp add: move_files_def BaseSchema_list_eq TrackLocation_columns clash_facts fetched_row
      is_dir_def is_file_def resolve_def entry_def move_source_def path_facts rename_def
      move_entry_def update_db_def location_attrs matching_def eighties_update_fails Let_def)

end
